theory Spec2Isabelle
  imports Main "HOL-Library.Word"
begin

section \<open>Strings and paths\<close>

text \<open>
  The configuration script \<^verbatim>\<open>jupyter_notebook_config.py\<close> computes the export path with
  the POSIX flavour of \<^verbatim>\<open>os.path\<close> and with \<^verbatim>\<open>notebook.utils.to_api_path\<close>. Paths are
  Python \<^verbatim>\<open>str\<close> values, modelled as \<^typ>\<open>string\<close>; the separator is \<^verbatim>\<open>/\<close> and the
  extension separator is \<^verbatim>\<open>.\<close>.
\<close>

abbreviation sep :: char where
  "sep \<equiv> CHR ''/''"

abbreviation extsep :: char where
  "extsep \<equiv> CHR ''.''"

text \<open>\<^verbatim>\<open>s.rfind(c)\<close>: the highest index of \<open>c\<close> in \<open>s\<close>, or \<open>-1\<close>.\<close>

fun rfind :: "string \<Rightarrow> char \<Rightarrow> int" where
  "rfind [] c = - 1"
| "rfind (x # xs) c =
     (let r = rfind xs c in if 0 \<le> r then r + 1 else if x = c then 0 else - 1)"

text \<open>\<^verbatim>\<open>s.startswith(t)\<close>.\<close>

definition startswith :: "string \<Rightarrow> string \<Rightarrow> bool" where
  "startswith s t = (take (length t) s = t)"

text \<open>\<^verbatim>\<open>s.endswith(t)\<close>.\<close>

definition endswith :: "string \<Rightarrow> string \<Rightarrow> bool" where
  "endswith s t = (length t \<le> length s \<and> drop (length s - length t) s = t)"

text \<open>\<^verbatim>\<open>s.lstrip(c)\<close>, \<^verbatim>\<open>s.rstrip(c)\<close> and \<^verbatim>\<open>s.strip(c)\<close> for a single character \<open>c\<close>.\<close>

definition lstrip :: "char \<Rightarrow> string \<Rightarrow> string" where
  "lstrip c s = dropWhile (\<lambda>x. x = c) s"

definition rstrip :: "char \<Rightarrow> string \<Rightarrow> string" where
  "rstrip c s = rev (dropWhile (\<lambda>x. x = c) (rev s))"

definition strip :: "char \<Rightarrow> string \<Rightarrow> string" where
  "strip c s = rstrip c (lstrip c s)"

text \<open>
  \<^verbatim>\<open>s.split(c)\<close> for a single character \<open>c\<close>: the fields between the occurrences of
  \<open>c\<close>; the empty string has the one field \<^verbatim>\<open>''\<close>.
\<close>

fun split :: "char \<Rightarrow> string \<Rightarrow> string list" where
  "split c [] = [[]]"
| "split c (x # xs) =
     (if x = c then [] # split c xs
      else (case split c xs of [] \<Rightarrow> [[x]] | w # ws \<Rightarrow> (x # w) # ws))"

text \<open>\<^verbatim>\<open>c.join(parts)\<close>.\<close>

fun join :: "char \<Rightarrow> string list \<Rightarrow> string" where
  "join c [] = []"
| "join c [p] = p"
| "join c (p # q # ps) = p @ c # join c (q # ps)"

text \<open>
  A relative path in normal form, as the API of the notebook server has them: components
  with single separators between them, none of them empty.
\<close>

definition relative_path :: "string \<Rightarrow> bool" where
  "relative_path p = ([] \<notin> set (split sep p))"

text \<open>
  \<^verbatim>\<open>os.path.splitext(p)\<close> (\<^verbatim>\<open>genericpath._splitext\<close>): the extension starts at the last dot
  of the last path component, unless that component has only dots before it. The
  \<^verbatim>\<open>while\<close> loop that skips the leading dots is \<open>splitext_loop\<close>; it answers whether
  the loop returns the split from inside (\<open>True\<close>) or runs to its end (\<open>False\<close>).
\<close>

function splitext_loop :: "string \<Rightarrow> nat \<Rightarrow> nat \<Rightarrow> bool" where
  "splitext_loop p filenameIndex dotIndex =
     (if filenameIndex < dotIndex then
        (if p ! filenameIndex \<noteq> extsep then True
         else splitext_loop p (filenameIndex + 1) dotIndex)
      else False)"
  by pat_completeness auto
termination
  by (relation "measure (\<lambda>(p, filenameIndex, dotIndex). dotIndex - filenameIndex)") auto

declare splitext_loop.simps [simp del]

definition splitext :: "string \<Rightarrow> string \<times> string" where
  "splitext p =
     (let sepIndex = rfind p sep;
          dotIndex = rfind p extsep
      in if dotIndex > sepIndex \<and> splitext_loop p (nat (sepIndex + 1)) (nat dotIndex)
         then (take (nat dotIndex) p, drop (nat dotIndex) p)
         else (p, []))"

text \<open>
  \<^verbatim>\<open>os.path.join(a, *p)\<close> (\<^verbatim>\<open>posixpath.join\<close>): a component that starts with the
  separator discards what came before it.
\<close>

fun path_join :: "string \<Rightarrow> string list \<Rightarrow> string" where
  "path_join path [] = path"
| "path_join path (b # bs) =
     path_join
       (if startswith b [sep] then b
        else if path = [] \<or> endswith path [sep] then path @ b
        else path @ [sep] @ b) bs"

text \<open>\<^verbatim>\<open>os.path.dirname(p)\<close> (\<^verbatim>\<open>posixpath.dirname\<close>).\<close>

definition dirname :: "string \<Rightarrow> string" where
  "dirname p =
     (let i = nat (rfind p sep + 1);
          head = take i p
      in if head \<noteq> [] \<and> head \<noteq> replicate (length head) sep then rstrip sep head
         else head)"

text \<open>
  \<^verbatim>\<open>notebook.utils.to_api_path(os_path, root)\<close>: the root is cut off when the path
  starts with it, then the path is split at the separator and joined again without its
  empty parts.
\<close>

definition to_api_path :: "string \<Rightarrow> string \<Rightarrow> string" where
  "to_api_path os_path root =
     (let os_path' = (if startswith os_path root then drop (length root) os_path else os_path);
          parts = split sep (strip sep os_path');
          parts' = filter (\<lambda>p. p \<noteq> []) parts
      in join sep parts')"

section \<open>Exceptions, text encoding, the file system\<close>

text \<open>
  Every exception the script can meet is a value. The script has no \<^verbatim>\<open>try\<close>: whatever a
  collaborator raises is what the hook raises. Of an error of the operating system the
  model keeps the class, not the message or the file name. \<open>Raised\<close> stands for an
  exception class of a collaborator that the model does not name.
\<close>

datatype exn =
    KeyError string
  | FileNotFoundError
  | FileExistsError
  | NotADirectoryError
  | IsADirectoryError
  | UnicodeEncodeError nat
  | Raised string

type_synonym byte = "8 word"

text \<open>The rendered script is a Python \<^verbatim>\<open>str\<close>: a sequence of code points.\<close>

type_synonym unicode = "nat list"

abbreviation LF :: nat where
  "LF \<equiv> 10"

datatype encoding = UTF8 | Latin1 | ASCII

text \<open>
  Encoding one code point. UTF-8 refuses the surrogates \<^verbatim>\<open>U+D800..U+DFFF\<close>, as Python's
  strict error handler does; a value above \<^verbatim>\<open>U+10FFFF\<close> is no code point and is refused
  too.
\<close>

definition encode_char :: "encoding \<Rightarrow> nat \<Rightarrow> exn + byte list" where
  "encode_char enc n =
     (case enc of
        ASCII \<Rightarrow> if n < 0x80 then Inr [of_nat n] else Inl (UnicodeEncodeError n)
      | Latin1 \<Rightarrow> if n < 0x100 then Inr [of_nat n] else Inl (UnicodeEncodeError n)
      | UTF8 \<Rightarrow>
          if n < 0x80 then Inr [of_nat n]
          else if n < 0x800 then Inr [of_nat (0xC0 + n div 0x40), of_nat (0x80 + n mod 0x40)]
          else if 0xD800 \<le> n \<and> n \<le> 0xDFFF then Inl (UnicodeEncodeError n)
          else if n < 0x10000 then
            Inr [of_nat (0xE0 + n div 0x1000), of_nat (0x80 + n div 0x40 mod 0x40),
                 of_nat (0x80 + n mod 0x40)]
          else if n < 0x110000 then
            Inr [of_nat (0xF0 + n div 0x40000), of_nat (0x80 + n div 0x1000 mod 0x40),
                 of_nat (0x80 + n div 0x40 mod 0x40), of_nat (0x80 + n mod 0x40)]
          else Inl (UnicodeEncodeError n))"

fun encode :: "encoding \<Rightarrow> unicode \<Rightarrow> exn + byte list" where
  "encode enc [] = Inr []"
| "encode enc (n # ns) =
     (case encode_char enc n of
        Inl e \<Rightarrow> Inl e
      | Inr bs \<Rightarrow> (case encode enc ns of Inl e \<Rightarrow> Inl e | Inr cs \<Rightarrow> Inr (bs @ cs)))"

text \<open>What the host platform would choose where a program does not say.\<close>

record platform =
  preferred_encoding :: encoding
  linesep :: unicode

text \<open>
  The newline translation of a text file on writing (\<^verbatim>\<open>io.TextIOWrapper\<close>): with
  \<^verbatim>\<open>newline=None\<close> every \<^verbatim>\<open>'\n'\<close> becomes \<^verbatim>\<open>os.linesep\<close>; with \<^verbatim>\<open>''\<close> or \<^verbatim>\<open>'\n'\<close>
  nothing is translated; with any other value every \<^verbatim>\<open>'\n'\<close> becomes that value.
\<close>

definition translate_newlines :: "platform \<Rightarrow> unicode option \<Rightarrow> unicode \<Rightarrow> unicode" where
  "translate_newlines pf newline s =
     (let writetranslate = (newline \<noteq> Some []);
          writenl = (case newline of None \<Rightarrow> linesep pf
                     | Some nl \<Rightarrow> if nl = [] then linesep pf else nl)
      in if writetranslate \<and> writenl \<noteq> [LF]
         then concat (map (\<lambda>c. if c = LF then writenl else [c]) s)
         else s)"

text \<open>
  The file system: the directories and the regular files, each under its resolved path,
  the list of its components from the root. Paths are resolved by splitting at the
  separator and dropping the empty components (the script builds its paths from the
  absolute \<^verbatim>\<open>dir_path\<close>; symbolic links, \<^verbatim>\<open>.\<close> and \<^verbatim>\<open>..\<close> are not modelled). The root
  directory \<open>[]\<close> always exists.
\<close>

record filesystem =
  dirs :: "string list set"
  files :: "string list \<rightharpoonup> byte list"

definition resolve :: "string \<Rightarrow> string list" where
  "resolve name = filter (\<lambda>p. p \<noteq> []) (split sep name)"

definition isdir :: "filesystem \<Rightarrow> string list \<Rightarrow> bool" where
  "isdir fs d = (d = [] \<or> d \<in> dirs fs)"

definition isfile :: "filesystem \<Rightarrow> string list \<Rightarrow> bool" where
  "isfile fs d = (files fs d \<noteq> None)"

text \<open>The proper, non-empty prefixes of a resolved path, shortest first.\<close>

fun ancestors :: "string list \<Rightarrow> string list list" where
  "ancestors [] = []"
| "ancestors (c # cs) = (if cs = [] then [] else [c] # map ((#) c) (ancestors cs))"

text \<open>
  The directories on the way down the components \<open>cs\<close>, below the directory \<open>done\<close>:
  each is the one before it with one more component.
\<close>

fun prefixes_from :: "string list \<Rightarrow> string list \<Rightarrow> string list list" where
  "prefixes_from done [] = []"
| "prefixes_from done (c # cs) = (done @ [c]) # prefixes_from (done @ [c]) cs"

text \<open>
  \<^verbatim>\<open>os.makedirs(name, exist_ok=...)\<close>: walks down the components of \<open>name\<close> and creates
  each directory that is missing. A regular file in the way is an error; the leaf that
  exists as a directory is an error only without \<^verbatim>\<open>exist_ok\<close>.
\<close>

fun makedirs_from :: "bool \<Rightarrow> string list \<Rightarrow> string list \<Rightarrow> filesystem \<Rightarrow> exn + filesystem" where
  "makedirs_from exist_ok done [] fs = Inr fs"
| "makedirs_from exist_ok done (c # cs) fs =
     (let d = done @ [c] in
      if isdir fs d then
        (if cs = [] \<and> \<not> exist_ok then Inl FileExistsError
         else makedirs_from exist_ok d cs fs)
      else if isfile fs d then
        Inl (if cs = [] then FileExistsError else NotADirectoryError)
      else makedirs_from exist_ok d cs (fs\<lparr>dirs := insert d (dirs fs)\<rparr>))"

definition makedirs :: "string \<Rightarrow> bool \<Rightarrow> filesystem \<Rightarrow> exn + filesystem" where
  "makedirs name exist_ok fs =
     (if name = [] then Inl FileNotFoundError
      else if resolve name = [] \<and> \<not> exist_ok then Inl FileExistsError
      else makedirs_from exist_ok [] (resolve name) fs)"

text \<open>
  \<^verbatim>\<open>io.open(name, 'w', ...)\<close>: creates the file or truncates it to length zero. The
  containing directory must exist.
\<close>

definition open_w :: "string \<Rightarrow> filesystem \<Rightarrow> exn + filesystem" where
  "open_w name fs =
     (let p = resolve name in
      if name = [] then Inl FileNotFoundError
      else if p = [] \<or> isdir fs p \<or> endswith name [sep] then Inl IsADirectoryError
      else if list_ex (isfile fs) (ancestors p) then Inl NotADirectoryError
      else if \<not> isdir fs (butlast p) then Inl FileNotFoundError
      else Inr (fs\<lparr>files := (files fs)(p \<mapsto> [])\<rparr>))"

text \<open>
  \<^verbatim>\<open>f.write(s)\<close> on the file just opened for writing at \<open>name\<close>, followed by the close
  of the \<^verbatim>\<open>with\<close> block: the text is translated, encoded and stored. A text that cannot
  be encoded leaves the file as \<^verbatim>\<open>open\<close> left it.
\<close>

definition write_text ::
  "platform \<Rightarrow> encoding option \<Rightarrow> unicode option \<Rightarrow> string \<Rightarrow> unicode \<Rightarrow> filesystem
     \<Rightarrow> exn + filesystem" where
  "write_text pf enc newline name s fs =
     (let codec = (case enc of None \<Rightarrow> preferred_encoding pf | Some c \<Rightarrow> c) in
      case encode codec (translate_newlines pf newline s) of
        Inl e \<Rightarrow> Inl e
      | Inr bs \<Rightarrow> Inr (fs\<lparr>files := (files fs)(resolve name \<mapsto> bs)\<rparr>))"

section \<open>The save hook\<close>

text \<open>
  The collaborators of the hook. The contents manager gives its root directory and its
  logger; the exporter instance is what \<^verbatim>\<open>ScriptExporter(parent=contents_manager)\<close>
  builds, with the template file the script then sets.
\<close>

type_synonym logger = string

record contents_manager =
  root_dir :: string
  log :: logger

record exporter =
  parent :: contents_manager
  template_file :: string

type_synonym model = "string \<rightharpoonup> string"

type_synonym resources = "string \<rightharpoonup> string"

text \<open>
  What the script is loaded with: \<open>dir_path\<close> is the directory of the configuration
  file (\<^verbatim>\<open>os.path.dirname(os.path.realpath(__file__))\<close>), \<open>from_filename\<close> is the
  conversion of nbconvert, which reads the notebook from the file system and returns
  the script and the resources or raises, and \<open>host\<close> is the platform.
\<close>

record env =
  dir_path :: string
  from_filename :: "filesystem \<Rightarrow> exporter \<Rightarrow> string \<Rightarrow> exn + (unicode \<times> resources)"
  host :: platform

definition nbexports_path :: "env \<Rightarrow> string" where
  "nbexports_path env = path_join (dir_path env) [''.nbexports'']"

text \<open>
  The calls the hook makes to its collaborators, in the order it makes them. A call is
  recorded when it is made, whether it returns or raises.
\<close>

datatype call =
    New_ScriptExporter contents_manager
  | From_filename exporter string
  | Makedirs string bool
  | Log_info logger string "string list"
  | Open_w string "encoding option" "unicode option"
  | Write string unicode

text \<open>
  The state a save can change: the file system, the module's global
  \<^verbatim>\<open>_script_exporter\<close> (\<open>None\<close> when the module is loaded) and the calls made so far.
\<close>

record world =
  disk :: filesystem
  script_exporter :: "exporter option"
  calls :: "call list"

definition called :: "call \<Rightarrow> world \<Rightarrow> world" where
  "called c w = w\<lparr>calls := calls w @ [c]\<rparr>"

text \<open>The local variables of \<^verbatim>\<open>export_script\<close> that name paths.\<close>

definition script_fname :: "string \<Rightarrow> resources \<Rightarrow> string" where
  "script_fname os_path resources =
     (let (base, ext) = splitext os_path
      in base @ (case resources ''output_extension'' of None \<Rightarrow> ''.txt'' | Some x \<Rightarrow> x))"

definition script_repopath :: "string \<Rightarrow> resources \<Rightarrow> contents_manager \<Rightarrow> string" where
  "script_repopath os_path resources contents_manager =
     to_api_path (script_fname os_path resources) (root_dir contents_manager)"

definition script_fullpath :: "env \<Rightarrow> string \<Rightarrow> resources \<Rightarrow> contents_manager \<Rightarrow> string" where
  "script_fullpath env os_path resources contents_manager =
     path_join (dir_path env) [''.nbexports'', script_repopath os_path resources contents_manager]"

text \<open>
  \<^verbatim>\<open>export_script(exporter, model, os_path, contents_manager)\<close>. The result is the
  exception raised or \<open>()\<close>, with the world as the call leaves it: an exception does
  not undo what was done before it.
\<close>

definition export_script ::
  "env \<Rightarrow> exporter \<Rightarrow> model \<Rightarrow> string \<Rightarrow> contents_manager \<Rightarrow> world \<Rightarrow> (exn + unit) \<times> world" where
  "export_script env exporter model os_path contents_manager w =
     (let w1 = called (From_filename exporter os_path) w in
      case from_filename env (disk w1) exporter os_path of
        Inl e \<Rightarrow> (Inl e, w1)
      | Inr (script, resources) \<Rightarrow>
          let fullpath = script_fullpath env os_path resources contents_manager;
              w2 = called (Makedirs (dirname fullpath) True) w1
          in case makedirs (dirname fullpath) True (disk w2) of
               Inl e \<Rightarrow> (Inl e, w2)
             | Inr fs3 \<Rightarrow>
                 let w3 = called (Log_info (log contents_manager) ''Saving script /%s'' [fullpath])
                            (w2\<lparr>disk := fs3\<rparr>);
                     w4 = called (Open_w fullpath (Some UTF8) (Some [LF])) w3
                 in case open_w fullpath (disk w4) of
                      Inl e \<Rightarrow> (Inl e, w4)
                    | Inr fs5 \<Rightarrow>
                        let w5 = called (Write fullpath script) (w4\<lparr>disk := fs5\<rparr>)
                        in case write_text (host env) (Some UTF8) (Some [LF]) fullpath script (disk w5) of
                             Inl e \<Rightarrow> (Inl e, w5)
                           | Inr fs6 \<Rightarrow> (Inr (), w5\<lparr>disk := fs6\<rparr>))"

text \<open>
  The block of \<^verbatim>\<open>script_post_save\<close> that fills the global \<^verbatim>\<open>_script_exporter\<close> when it
  is \<^verbatim>\<open>None\<close>. It returns the exporter the save goes on with. The two imports of
  nbconvert and the construction of the exporter are taken to succeed.
\<close>

definition ensure_script_exporter :: "env \<Rightarrow> contents_manager \<Rightarrow> world \<Rightarrow> exporter \<times> world" where
  "ensure_script_exporter env contents_manager w =
     (case script_exporter w of
        None \<Rightarrow>
          let x = \<lparr>parent = contents_manager,
                   template_file =
                     path_join (dir_path env) [''jupyter_script_export_template.tpl'']\<rparr>
          in (x, (called (New_ScriptExporter contents_manager) w)\<lparr>script_exporter := Some x\<rparr>)
      | Some x \<Rightarrow> (x, w))"

text \<open>
  \<^verbatim>\<open>script_post_save(model, os_path, contents_manager)\<close>, the hook registered as
  \<^verbatim>\<open>c.FileContentsManager.post_save_hook\<close>. \<^verbatim>\<open>model['type']\<close> raises \<^verbatim>\<open>KeyError\<close> on a
  model without the key.
\<close>

definition script_post_save ::
  "env \<Rightarrow> model \<Rightarrow> string \<Rightarrow> contents_manager \<Rightarrow> world \<Rightarrow> (exn + unit) \<times> world" where
  "script_post_save env model os_path contents_manager w =
     (case model ''type'' of
        None \<Rightarrow> (Inl (KeyError ''type''), w)
      | Some t \<Rightarrow>
          if t \<noteq> ''notebook'' then (Inr (), w)
          else
            (let (x, w') = ensure_script_exporter env contents_manager w
             in export_script env x model os_path contents_manager w'))"

text \<open>
  A process is a sequence of saves: the host calls the hook once for each, one after
  the other, and goes on after a hook that raised.
\<close>

record save_event =
  ev_model :: model
  ev_os_path :: string
  ev_contents_manager :: contents_manager

fun saves :: "env \<Rightarrow> save_event list \<Rightarrow> world \<Rightarrow> world" where
  "saves env [] w = w"
| "saves env (ev # evs) w =
     saves env evs
       (snd (script_post_save env (ev_model ev) (ev_os_path ev) (ev_contents_manager ev) w))"

definition is_notebook_save :: "save_event \<Rightarrow> bool" where
  "is_notebook_save ev = (ev_model ev ''type'' = Some ''notebook'')"

text \<open>How often \<^verbatim>\<open>ScriptExporter(...)\<close> was called.\<close>

definition constructions :: "world \<Rightarrow> nat" where
  "constructions w =
     length (filter (\<lambda>c. case c of New_ScriptExporter _ \<Rightarrow> True | _ \<Rightarrow> False) (calls w))"

text \<open>What was sent to a logger, in order.\<close>

definition log_output :: "world \<Rightarrow> call list" where
  "log_output w =
     filter (\<lambda>c. case c of Log_info _ _ _ \<Rightarrow> True | _ \<Rightarrow> False) (calls w)"

text \<open>
  The state of the cache: while the global is \<^verbatim>\<open>None\<close> nothing was constructed or
  converted; once it holds an exporter, that exporter is the only one constructed and
  the one every conversion went to.
\<close>

definition cache_consistent :: "world \<Rightarrow> bool" where
  "cache_consistent w =
     (case script_exporter w of
        None \<Rightarrow> constructions w = 0 \<and> (\<forall>y p. From_filename y p \<notin> set (calls w))
      | Some x \<Rightarrow>
          constructions w = 1 \<and> (\<forall>y p. From_filename y p \<in> set (calls w) \<longrightarrow> y = x))"

subsection \<open>A small installation\<close>

text \<open>
  The configuration file lies in \<^verbatim>\<open>/proj\<close>, which is also the root of the contents
  manager. The conversion renders \<^verbatim>\<open>print(1)\<close> and a newline with the extension
  \<^verbatim>\<open>.py\<close>; it raises for \<^verbatim>\<open>bad.ipynb\<close>, names no extension for \<^verbatim>\<open>plain.ipynb\<close> and
  renders a lone surrogate for \<^verbatim>\<open>odd.ipynb\<close>.
\<close>

definition demo_script :: unicode where
  "demo_script = [112, 114, 105, 110, 116, 40, 49, 41, LF]"

definition demo_from_filename :: "filesystem \<Rightarrow> exporter \<Rightarrow> string \<Rightarrow> exn + (unicode \<times> resources)" where
  "demo_from_filename fs x p =
     (if p = ''/proj/bad.ipynb'' then Inl (Raised ''NotJSONError'')
      else if p = ''/proj/plain.ipynb'' then Inr (demo_script, Map.empty)
      else if p = ''/proj/odd.ipynb'' then Inr ([0xD800], [''output_extension'' \<mapsto> ''.py''])
      else Inr (demo_script, [''output_extension'' \<mapsto> ''.py'']))"

definition demo_env :: env where
  "demo_env = \<lparr>dir_path = ''/proj'', from_filename = demo_from_filename,
                host = \<lparr>preferred_encoding = Latin1, linesep = [13, LF]\<rparr>\<rparr>"

definition demo_cm :: contents_manager where
  "demo_cm = \<lparr>root_dir = ''/proj'', log = ''NotebookApp''\<rparr>"

definition demo_exporter :: exporter where
  "demo_exporter =
     \<lparr>parent = demo_cm, template_file = ''/proj/jupyter_script_export_template.tpl''\<rparr>"

definition demo_world :: world where
  "demo_world =
     \<lparr>disk = \<lparr>dirs = {[''proj'']}, files = Map.empty\<rparr>, script_exporter = None, calls = []\<rparr>"

text \<open>The same, with a regular file where the export root should be.\<close>

definition blocked_world :: world where
  "blocked_world =
     \<lparr>disk = \<lparr>dirs = {[''proj'']}, files = [[''proj'', ''.nbexports''] \<mapsto> []]\<rparr>,
      script_exporter = None, calls = []\<rparr>"

text \<open>The same, with a directory where the export file should be.\<close>

definition occupied_world :: world where
  "occupied_world =
     \<lparr>disk = \<lparr>dirs = {[''proj''], [''proj'', ''.nbexports''],
                      [''proj'', ''.nbexports'', ''demo.py'']},
              files = Map.empty\<rparr>,
      script_exporter = None, calls = []\<rparr>"

definition notebook_model :: model where
  "notebook_model = [''type'' \<mapsto> ''notebook'']"

definition file_model :: model where
  "file_model = [''type'' \<mapsto> ''file'']"

definition save_of :: "model \<Rightarrow> string \<Rightarrow> save_event" where
  "save_of m p = \<lparr>ev_model = m, ev_os_path = p, ev_contents_manager = demo_cm\<rparr>"

section \<open>Facts about strings and paths\<close>

subsection \<open>Splitting and joining\<close>

lemma split_not_Nil [simp]: "split c s \<noteq> []"
  by (induction s) (auto split: list.splits)

lemma split_no_sep: "c \<notin> set t \<Longrightarrow> split c t = [t]"
  by (induction t) auto

lemma split_append_sep: "split c (a @ c # b) = split c a @ split c b"
proof (induction a)
  case Nil
  then show ?case by simp
next
  case (Cons x a)
  then show ?case
    by (cases "split c a") (auto split: list.splits)
qed

lemma split_snoc_sep: "split c (a @ [c]) = split c a @ [[]]"
  using split_append_sep [of c a "[]"] by simp

lemma split_append_no_sep:
  assumes "c \<notin> set t"
  shows "split c (a @ t) = butlast (split c a) @ [last (split c a) @ t]"
proof (induction a)
  case Nil
  then show ?case using assms by (simp add: split_no_sep)
next
  case (Cons x a)
  show ?case
  proof (cases "x = c")
    case True
    then show ?thesis using Cons by simp
  next
    case False
    obtain w ws where ws: "split c a = w # ws"
      by (cases "split c a") auto
    show ?thesis
    proof (cases ws)
      case Nil
      with ws Cons False show ?thesis by simp
    next
      case (Cons v vs)
      with ws Cons.IH False show ?thesis
        by (cases "butlast (split c a)") (auto split: list.splits)
    qed
  qed
qed

lemma join_split: "join c (split c s) = s"
proof (induction s)
  case Nil
  then show ?case by simp
next
  case (Cons x s)
  obtain w ws where ws: "split c s = w # ws"
    by (cases "split c s") auto
  show ?case
  proof (cases "x = c")
    case True
    with Cons ws show ?thesis by simp
  next
    case False
    with Cons ws show ?thesis by (cases ws) auto
  qed
qed

lemma split_fields_no_sep: "w \<in> set (split c s) \<Longrightarrow> c \<notin> set w"
proof (induction s arbitrary: w)
  case Nil
  then show ?case by simp
next
  case (Cons x s)
  then show ?case
    by (cases "split c s") (auto split: if_splits)
qed

lemma split_single: "split c s = [w] \<Longrightarrow> s = w"
  using join_split [of c s] by simp

lemma last_split_Nil: "last (split c s) = [] \<longleftrightarrow> s = [] \<or> last s = c"
proof (induction s)
  case Nil
  then show ?case by simp
next
  case (Cons x s)
  obtain w ws where ws: "split c s = w # ws"
    by (cases "split c s") auto
  show ?case
  proof (cases "x = c")
    case True
    with Cons ws show ?thesis by auto
  next
    case False
    with Cons ws show ?thesis by (cases ws) (auto dest: split_single)
  qed
qed

lemma hd_split_Nil: "hd (split c s) = [] \<longleftrightarrow> s = [] \<or> hd s = c"
  by (cases s) (auto split: list.splits)

subsection \<open>Stripping\<close>

lemma lstrip_id: "s = [] \<or> hd s \<noteq> c \<Longrightarrow> lstrip c s = s"
  by (cases s) (auto simp add: lstrip_def)

lemma rstrip_id: "s = [] \<or> last s \<noteq> c \<Longrightarrow> rstrip c s = s"
  by (cases s rule: rev_cases) (auto simp add: rstrip_def)

lemma lstrip_Cons_sep [simp]: "lstrip c (c # s) = lstrip c s"
  by (simp add: lstrip_def)

lemma rstrip_snoc_sep [simp]: "rstrip c (s @ [c]) = rstrip c s"
  by (simp add: rstrip_def)

lemma rstrip_not_Nil:
  assumes "x \<in> set s" and "x \<noteq> c"
  shows "rstrip c s \<noteq> []"
proof -
  have "dropWhile (\<lambda>y. y = c) (rev s) \<noteq> []"
    using assms by (auto simp add: dropWhile_eq_Nil_conv)
  then show ?thesis by (simp add: rstrip_def)
qed

subsection \<open>Searching from the right\<close>

lemma rfind_ge: "- 1 \<le> rfind s c"
  by (induction s) (auto simp add: Let_def)

lemma rfind_neg_iff: "rfind s c < 0 \<longleftrightarrow> c \<notin> set s"
  by (induction s) (auto simp add: Let_def)

lemma rfind_notin: "c \<notin> set s \<Longrightarrow> rfind s c = - 1"
  using rfind_ge [of s c] rfind_neg_iff [of s c] by simp

lemma rfind_lt_length: "rfind s c < int (length s)"
  by (induction s) (auto simp add: Let_def)

lemma rfind_append:
  "rfind (a @ b) c = (if c \<in> set b then int (length a) + rfind b c else rfind a c)"
proof (induction a)
  case Nil
  then show ?case by (simp add: rfind_notin)
next
  case (Cons x a)
  then show ?case
    using rfind_neg_iff [of b c] rfind_neg_iff [of a c]
    by (auto simp add: Let_def)
qed

lemma rfind_Cons_same: "rfind (c # s) c = rfind s c + 1"
  using rfind_ge [of s c] by (auto simp add: Let_def)

lemma rfind_last_occurrence:
  assumes "c \<notin> set b"
  shows "rfind (a @ c # b) c = int (length a)"
  using assms by (simp add: rfind_append rfind_Cons_same rfind_notin)

text \<open>What lies behind the last occurrence has no occurrence.\<close>

lemma rfind_split:
  assumes "c \<in> set s"
  shows "\<exists>a b. s = a @ c # b \<and> c \<notin> set b \<and> rfind s c = int (length a)"
proof -
  obtain a b where "s = a @ c # b" "c \<notin> set b"
    using assms by (meson split_list_last)
  then show ?thesis
    using rfind_last_occurrence by blast
qed

section \<open>Facts about the hook\<close>

lemma disk_called [simp]: "disk (called c w) = disk w"
  by (simp add: called_def)

lemma calls_called [simp]: "calls (called c w) = calls w @ [c]"
  by (simp add: called_def)

lemma script_exporter_called [simp]: "script_exporter (called c w) = script_exporter w"
  by (simp add: called_def)

lemma disk_ensure [simp]: "disk (snd (ensure_script_exporter env cm w)) = disk w"
  by (simp add: ensure_script_exporter_def Let_def split: option.splits)

lemma script_exporter_ensure [simp]:
  "script_exporter (snd (ensure_script_exporter env cm w)) = Some (fst (ensure_script_exporter env cm w))"
  by (simp add: ensure_script_exporter_def Let_def split: option.splits)

lemma calls_ensure:
  "calls (snd (ensure_script_exporter env cm w)) =
     calls w @ (if script_exporter w = None then [New_ScriptExporter cm] else [])"
  by (simp add: ensure_script_exporter_def Let_def split: option.splits)

lemma script_post_save_notebook:
  assumes "model ''type'' = Some ''notebook''"
  shows "script_post_save env model os_path cm w =
           export_script env (fst (ensure_script_exporter env cm w)) model os_path cm
             (snd (ensure_script_exporter env cm w))"
  using assms by (simp add: script_post_save_def split: prod.splits)

lemma export_script_conversion_raises:
  assumes "from_filename env (disk w) x os_path = Inl e"
  shows "export_script env x model os_path cm w = (Inl e, called (From_filename x os_path) w)"
  using assms by (simp add: export_script_def Let_def)

lemma export_script_makedirs_raises:
  assumes "from_filename env (disk w) x os_path = Inr (script, res)"
    and "makedirs (dirname (script_fullpath env os_path res cm)) True (disk w) = Inl e"
  shows "export_script env x model os_path cm w =
           (Inl e, called (Makedirs (dirname (script_fullpath env os_path res cm)) True)
                     (called (From_filename x os_path) w))"
  using assms by (simp add: export_script_def Let_def)

lemma export_script_open_raises:
  assumes "from_filename env (disk w) x os_path = Inr (script, res)"
    and "makedirs (dirname (script_fullpath env os_path res cm)) True (disk w) = Inr fs3"
    and "open_w (script_fullpath env os_path res cm) fs3 = Inl e"
  shows "export_script env x model os_path cm w =
           (Inl e, w\<lparr>disk := fs3,
                     calls := calls w @
                       [From_filename x os_path,
                        Makedirs (dirname (script_fullpath env os_path res cm)) True,
                        Log_info (log cm) ''Saving script /%s'' [script_fullpath env os_path res cm],
                        Open_w (script_fullpath env os_path res cm) (Some UTF8) (Some [LF])]\<rparr>)"
  using assms by (simp add: export_script_def Let_def called_def)

lemma export_script_write_raises:
  assumes "from_filename env (disk w) x os_path = Inr (script, res)"
    and "makedirs (dirname (script_fullpath env os_path res cm)) True (disk w) = Inr fs3"
    and "open_w (script_fullpath env os_path res cm) fs3 = Inr fs5"
    and "write_text (host env) (Some UTF8) (Some [LF]) (script_fullpath env os_path res cm) script fs5 = Inl e"
  shows "export_script env x model os_path cm w =
           (Inl e, w\<lparr>disk := fs5,
                     calls := calls w @
                       [From_filename x os_path,
                        Makedirs (dirname (script_fullpath env os_path res cm)) True,
                        Log_info (log cm) ''Saving script /%s'' [script_fullpath env os_path res cm],
                        Open_w (script_fullpath env os_path res cm) (Some UTF8) (Some [LF]),
                        Write (script_fullpath env os_path res cm) script]\<rparr>)"
  using assms by (simp add: export_script_def Let_def called_def)

lemma export_script_returns:
  assumes "from_filename env (disk w) x os_path = Inr (script, res)"
    and "makedirs (dirname (script_fullpath env os_path res cm)) True (disk w) = Inr fs3"
    and "open_w (script_fullpath env os_path res cm) fs3 = Inr fs5"
    and "write_text (host env) (Some UTF8) (Some [LF]) (script_fullpath env os_path res cm) script fs5 = Inr fs6"
  shows "export_script env x model os_path cm w =
           (Inr (), w\<lparr>disk := fs6,
                     calls := calls w @
                       [From_filename x os_path,
                        Makedirs (dirname (script_fullpath env os_path res cm)) True,
                        Log_info (log cm) ''Saving script /%s'' [script_fullpath env os_path res cm],
                        Open_w (script_fullpath env os_path res cm) (Some UTF8) (Some [LF]),
                        Write (script_fullpath env os_path res cm) script]\<rparr>)"
  using assms by (simp add: export_script_def Let_def called_def)

text \<open>A save that returns went through every stage.\<close>

lemma export_script_returnsD:
  assumes "fst (export_script env x model os_path cm w) = Inr ()"
    and "from_filename env (disk w) x os_path = Inr (script, res)"
  shows "\<exists>fs3 fs5 fs6.
           makedirs (dirname (script_fullpath env os_path res cm)) True (disk w) = Inr fs3 \<and>
           open_w (script_fullpath env os_path res cm) fs3 = Inr fs5 \<and>
           write_text (host env) (Some UTF8) (Some [LF]) (script_fullpath env os_path res cm) script fs5 = Inr fs6"
  using assms by (auto simp add: export_script_def Let_def called_def split: sum.splits)

section \<open>The small installation, evaluated\<close>

lemma notebook_model_type: "notebook_model ''type'' = Some ''notebook''"
  by (simp add: notebook_model_def)

lemma demo_template: "path_join ''/proj'' [''jupyter_script_export_template.tpl'']
     = ''/proj/jupyter_script_export_template.tpl''"
  by code_simp

lemma demo_ensure:
  assumes "script_exporter w = None"
  shows "ensure_script_exporter demo_env demo_cm w
           = (demo_exporter,
              w\<lparr>calls := calls w @ [New_ScriptExporter demo_cm],
                script_exporter := Some demo_exporter\<rparr>)"
  using assms
  by (simp add: ensure_script_exporter_def demo_env_def demo_exporter_def demo_template called_def
      Let_def del: path_join.simps)

lemma demo_from_filename_simps:
  "from_filename demo_env fs x ''/proj/demo.ipynb'' = Inr (demo_script, [''output_extension'' \<mapsto> ''.py''])"
  "from_filename demo_env fs x ''/proj/a/b/Notebook.ipynb'' = Inr (demo_script, [''output_extension'' \<mapsto> ''.py''])"
  "from_filename demo_env fs x ''/proj/plain.ipynb'' = Inr (demo_script, Map.empty)"
  "from_filename demo_env fs x ''/proj/odd.ipynb'' = Inr ([0xD800], [''output_extension'' \<mapsto> ''.py''])"
  "from_filename demo_env fs x ''/proj/bad.ipynb'' = Inl (Raised ''NotJSONError'')"
  by (simp_all add: demo_env_def demo_from_filename_def)

lemma demo_fullpath:
  "script_fullpath demo_env ''/proj/demo.ipynb'' [''output_extension'' \<mapsto> ''.py''] demo_cm
     = ''/proj/.nbexports/demo.py''"
  by code_simp

lemma odd_fullpath:
  "script_fullpath demo_env ''/proj/odd.ipynb'' [''output_extension'' \<mapsto> ''.py''] demo_cm
     = ''/proj/.nbexports/odd.py''"
  by code_simp

lemma plain_fullpath:
  "script_fullpath demo_env ''/proj/plain.ipynb'' Map.empty demo_cm = ''/proj/.nbexports/plain.txt''"
  by code_simp

lemma nested_fullpath:
  "script_fullpath demo_env ''/proj/a/b/Notebook.ipynb'' [''output_extension'' \<mapsto> ''.py''] demo_cm
     = ''/proj/.nbexports/a/b/Notebook.py''"
  by code_simp

lemma demo_dirname:
  "dirname ''/proj/.nbexports/demo.py'' = ''/proj/.nbexports''"
  "dirname ''/proj/.nbexports/odd.py'' = ''/proj/.nbexports''"
  "dirname ''/proj/.nbexports/plain.txt'' = ''/proj/.nbexports''"
  "dirname ''/proj/.nbexports/a/b/Notebook.py'' = ''/proj/.nbexports/a/b''"
  by code_simp+

lemma demo_resolve:
  "resolve ''/proj/.nbexports'' = [''proj'', ''.nbexports'']"
  "resolve ''/proj/.nbexports/a/b'' = [''proj'', ''.nbexports'', ''a'', ''b'']"
  "resolve ''/proj/.nbexports/demo.py'' = [''proj'', ''.nbexports'', ''demo.py'']"
  "resolve ''/proj/.nbexports/odd.py'' = [''proj'', ''.nbexports'', ''odd.py'']"
  "resolve ''/proj/.nbexports/plain.txt'' = [''proj'', ''.nbexports'', ''plain.txt'']"
  "resolve ''/proj/.nbexports/a/b/Notebook.py'' = [''proj'', ''.nbexports'', ''a'', ''b'', ''Notebook.py'']"
  by code_simp+

lemma demo_not_endswith:
  "\<not> endswith ''/proj/.nbexports/demo.py'' [sep]"
  "\<not> endswith ''/proj/.nbexports/odd.py'' [sep]"
  "\<not> endswith ''/proj/.nbexports/plain.txt'' [sep]"
  "\<not> endswith ''/proj/.nbexports/a/b/Notebook.py'' [sep]"
  by code_simp+

lemma demo_encode:
  "encode UTF8 demo_script = Inr [112, 114, 105, 110, 116, 40, 49, 41, 10]"
  by code_simp

lemma odd_encode:
  "encode UTF8 [0xD800] = Inl (UnicodeEncodeError 0xD800)"
  by (simp add: encode_char_def)

lemma demo_makedirs:
  "makedirs ''/proj/.nbexports'' True (disk demo_world)
     = Inr \<lparr>dirs = {[''proj'', ''.nbexports''], [''proj'']}, files = Map.empty\<rparr>"
  by (simp add: makedirs_def demo_resolve isdir_def isfile_def demo_world_def)

lemma blocked_makedirs:
  "makedirs ''/proj/.nbexports'' True (disk blocked_world) = Inl FileExistsError"
  by (simp add: makedirs_def demo_resolve isdir_def isfile_def blocked_world_def)

lemma occupied_makedirs:
  "makedirs ''/proj/.nbexports'' True (disk occupied_world) = Inr (disk occupied_world)"
  by (simp add: makedirs_def demo_resolve isdir_def isfile_def occupied_world_def)

lemma occupied_open:
  "open_w ''/proj/.nbexports/demo.py'' (disk occupied_world)
     = Inl IsADirectoryError"
  by (simp add: open_w_def demo_resolve isdir_def occupied_world_def)

lemma demo_open:
  "open_w ''/proj/.nbexports/demo.py''
       \<lparr>dirs = {[''proj'', ''.nbexports''], [''proj'']}, files = Map.empty\<rparr>
     = Inr \<lparr>dirs = {[''proj'', ''.nbexports''], [''proj'']},
            files = [[''proj'', ''.nbexports'', ''demo.py''] \<mapsto> []]\<rparr>"
  by (simp add: open_w_def demo_resolve demo_not_endswith isdir_def isfile_def)

lemma odd_open:
  "open_w ''/proj/.nbexports/odd.py''
       \<lparr>dirs = {[''proj'', ''.nbexports''], [''proj'']}, files = Map.empty\<rparr>
     = Inr \<lparr>dirs = {[''proj'', ''.nbexports''], [''proj'']},
            files = [[''proj'', ''.nbexports'', ''odd.py''] \<mapsto> []]\<rparr>"
  by (simp add: open_w_def demo_resolve demo_not_endswith isdir_def isfile_def)

lemma write_text_utf8:
  "write_text pf (Some UTF8) (Some [LF]) name s fs =
     (case encode UTF8 s of
        Inl e \<Rightarrow> Inl e
      | Inr bs \<Rightarrow> Inr (fs\<lparr>files := (files fs)(resolve name \<mapsto> bs)\<rparr>))"
  by (simp add: write_text_def translate_newlines_def)

lemma demo_write:
  "write_text pf (Some UTF8) (Some [LF]) ''/proj/.nbexports/demo.py'' demo_script
       \<lparr>dirs = {[''proj'', ''.nbexports''], [''proj'']},
        files = [[''proj'', ''.nbexports'', ''demo.py''] \<mapsto> []]\<rparr>
     = Inr \<lparr>dirs = {[''proj'', ''.nbexports''], [''proj'']},
            files = [[''proj'', ''.nbexports'', ''demo.py'']
                       \<mapsto> [112, 114, 105, 110, 116, 40, 49, 41, 10]]\<rparr>"
  by (simp add: write_text_utf8 demo_encode demo_resolve del: encode.simps)

lemma odd_write:
  "write_text pf (Some UTF8) (Some [LF]) ''/proj/.nbexports/odd.py'' [0xD800] fs
     = Inl (UnicodeEncodeError 0xD800)"
  by (simp add: write_text_utf8 odd_encode del: encode.simps)

lemma demo_ensure_world:
  "ensure_script_exporter demo_env demo_cm demo_world =
     (demo_exporter,
      demo_world\<lparr>calls := [New_ScriptExporter demo_cm], script_exporter := Some demo_exporter\<rparr>)"
  using demo_ensure [of demo_world] by (simp add: demo_world_def)

lemma blocked_ensure_world:
  "ensure_script_exporter demo_env demo_cm blocked_world =
     (demo_exporter,
      blocked_world\<lparr>calls := [New_ScriptExporter demo_cm], script_exporter := Some demo_exporter\<rparr>)"
  using demo_ensure [of blocked_world] by (simp add: blocked_world_def)

lemma occupied_ensure_world:
  "ensure_script_exporter demo_env demo_cm occupied_world =
     (demo_exporter,
      occupied_world\<lparr>calls := [New_ScriptExporter demo_cm], script_exporter := Some demo_exporter\<rparr>)"
  using demo_ensure [of occupied_world] by (simp add: occupied_world_def)

lemma demo_log: "log demo_cm = ''NotebookApp''"
  by (simp add: demo_cm_def)

section \<open>More facts about the hook\<close>

lemma log_output_ensure [simp]:
  "log_output (snd (ensure_script_exporter env cm w)) = log_output w"
  by (simp add: log_output_def calls_ensure)

lemma write_text_files:
  assumes "write_text pf enc newline name s fs = Inr fs'"
  shows "files fs' (resolve name) \<noteq> None"
  using assms by (auto simp add: write_text_def Let_def split: sum.splits)

lemma script_fullpath_unfold:
  "script_fullpath env os_path res cm =
     path_join (dir_path env)
       [''.nbexports'',
        to_api_path
          (fst (splitext os_path) @
             (case res ''output_extension'' of None \<Rightarrow> ''.txt'' | Some e \<Rightarrow> e))
          (root_dir cm)]"
  by (simp add: script_fullpath_def script_repopath_def script_fname_def split_def
      del: path_join.simps)

text \<open>After a conversion that returned, the directories are asked for, whatever follows.\<close>

lemma export_script_makedirs_called:
  assumes "from_filename env (disk w) x os_path = Inr (script, res)"
  shows "Makedirs (dirname (script_fullpath env os_path res cm)) True
           \<in> set (calls (snd (export_script env x model os_path cm w)))"
  using assms
  by (simp add: export_script_def Let_def called_def split: sum.splits)

lemma ensure_script_exporter_host:
  "ensure_script_exporter (env\<lparr>host := pf\<rparr>) cm w = ensure_script_exporter env cm w"
  by (simp add: ensure_script_exporter_def split: option.splits del: path_join.simps)

lemma script_fullpath_host:
  "script_fullpath (env\<lparr>host := pf\<rparr>) os_path res cm = script_fullpath env os_path res cm"
  by (simp add: script_fullpath_def del: path_join.simps)

lemma export_script_host:
  "export_script (env\<lparr>host := pf\<rparr>) x model os_path cm w = export_script env x model os_path cm w"
  by (simp add: export_script_def write_text_utf8 script_fullpath_host Let_def
      split: sum.splits prod.splits)

lemma script_post_save_host:
  "script_post_save (env\<lparr>host := pf\<rparr>) model os_path cm w = script_post_save env model os_path cm w"
  by (simp add: script_post_save_def ensure_script_exporter_host export_script_host
      split: option.splits prod.splits)

text \<open>
  The arguments matter: a file opened without them is written in the platform's encoding
  and with the platform's line separator.
\<close>

lemma write_text_platform_defaults:
  "write_text \<lparr>preferred_encoding = UTF8, linesep = [13, LF]\<rparr> None None name [233, LF] fs
     = Inr (fs\<lparr>files := (files fs)(resolve name \<mapsto> [195, 169, 13, 10])\<rparr>)"
  "write_text \<lparr>preferred_encoding = Latin1, linesep = [LF]\<rparr> None None name [233, LF] fs
     = Inr (fs\<lparr>files := (files fs)(resolve name \<mapsto> [233, 10])\<rparr>)"
  "write_text pf (Some UTF8) (Some [LF]) name [233, LF] fs
     = Inr (fs\<lparr>files := (files fs)(resolve name \<mapsto> [195, 169, 10])\<rparr>)"
  by (simp_all add: write_text_def translate_newlines_def encode_char_def)

section \<open>Saves in the small installation\<close>

lemma demo_world_save:
  assumes conv: "from_filename demo_env (disk demo_world) demo_exporter p = Inr (script, res)"
    and full: "script_fullpath demo_env p res demo_cm = f"
    and dir: "dirname f = ''/proj/.nbexports''"
    and res: "resolve f = [''proj'', ''.nbexports'', name]"
    and nend: "\<not> endswith f [sep]"
    and enc: "encode UTF8 script = Inr bs"
  shows "script_post_save demo_env notebook_model p demo_cm demo_world =
     (Inr (),
      \<lparr>disk = \<lparr>dirs = {[''proj'', ''.nbexports''], [''proj'']},
               files = [[''proj'', ''.nbexports'', name] \<mapsto> bs]\<rparr>,
       script_exporter = Some demo_exporter,
       calls = [New_ScriptExporter demo_cm, From_filename demo_exporter p,
                Makedirs ''/proj/.nbexports'' True,
                Log_info ''NotebookApp'' ''Saving script /%s'' [f],
                Open_w f (Some UTF8) (Some [LF]),
                Write f script]\<rparr>)"
proof -
  let ?w = "demo_world\<lparr>calls := [New_ScriptExporter demo_cm], script_exporter := Some demo_exporter\<rparr>"
  let ?fs3 = "\<lparr>dirs = {[''proj'', ''.nbexports''], [''proj'']}, files = Map.empty\<rparr>"
  let ?fs5 = "\<lparr>dirs = {[''proj'', ''.nbexports''], [''proj'']},
               files = [[''proj'', ''.nbexports'', name] \<mapsto> []]\<rparr>"
  let ?fs6 = "\<lparr>dirs = {[''proj'', ''.nbexports''], [''proj'']},
               files = [[''proj'', ''.nbexports'', name] \<mapsto> bs]\<rparr>"
  have ne: "f \<noteq> []"
    using res by (auto simp add: resolve_def)
  have 1: "from_filename demo_env (disk ?w) demo_exporter p = Inr (script, res)"
    using conv by simp
  have 2: "makedirs (dirname (script_fullpath demo_env p res demo_cm)) True (disk ?w) = Inr ?fs3"
    by (simp add: full dir demo_makedirs)
  have 3: "open_w (script_fullpath demo_env p res demo_cm) ?fs3 = Inr ?fs5"
    by (simp add: full open_w_def res nend ne isdir_def isfile_def)
  have 4: "write_text (host demo_env) (Some UTF8) (Some [LF])
      (script_fullpath demo_env p res demo_cm) script ?fs5 = Inr ?fs6"
    by (simp add: full write_text_utf8 enc res)
  have s: "script_post_save demo_env notebook_model p demo_cm demo_world =
      export_script demo_env demo_exporter notebook_model p demo_cm ?w"
    by (simp add: script_post_save_notebook notebook_model_type demo_ensure_world)
  have e: "export_script demo_env demo_exporter notebook_model p demo_cm ?w =
      (Inr (), ?w\<lparr>disk := ?fs6,
         calls := calls ?w @
           [From_filename demo_exporter p, Makedirs ''/proj/.nbexports'' True,
            Log_info ''NotebookApp'' ''Saving script /%s'' [f],
            Open_w f (Some UTF8) (Some [LF]), Write f script]\<rparr>)"
    by (simp add: export_script_returns [OF 1 2 3 4] full dir demo_log)
  show ?thesis
    unfolding s e by (simp add: demo_world_def)
qed

lemma demo_save:
  "script_post_save demo_env notebook_model ''/proj/demo.ipynb'' demo_cm demo_world =
     (Inr (),
      \<lparr>disk = \<lparr>dirs = {[''proj'', ''.nbexports''], [''proj'']},
               files = [[''proj'', ''.nbexports'', ''demo.py'']
                          \<mapsto> [112, 114, 105, 110, 116, 40, 49, 41, 10]]\<rparr>,
       script_exporter = Some demo_exporter,
       calls = [New_ScriptExporter demo_cm, From_filename demo_exporter ''/proj/demo.ipynb'',
                Makedirs ''/proj/.nbexports'' True,
                Log_info ''NotebookApp'' ''Saving script /%s'' [''/proj/.nbexports/demo.py''],
                Open_w ''/proj/.nbexports/demo.py'' (Some UTF8) (Some [LF]),
                Write ''/proj/.nbexports/demo.py'' demo_script]\<rparr>)"
  by (rule demo_world_save [OF demo_from_filename_simps(1) demo_fullpath demo_dirname(1)
        demo_resolve(3) demo_not_endswith(1) demo_encode])

lemma plain_save:
  "script_post_save demo_env notebook_model ''/proj/plain.ipynb'' demo_cm demo_world =
     (Inr (),
      \<lparr>disk = \<lparr>dirs = {[''proj'', ''.nbexports''], [''proj'']},
               files = [[''proj'', ''.nbexports'', ''plain.txt'']
                          \<mapsto> [112, 114, 105, 110, 116, 40, 49, 41, 10]]\<rparr>,
       script_exporter = Some demo_exporter,
       calls = [New_ScriptExporter demo_cm, From_filename demo_exporter ''/proj/plain.ipynb'',
                Makedirs ''/proj/.nbexports'' True,
                Log_info ''NotebookApp'' ''Saving script /%s'' [''/proj/.nbexports/plain.txt''],
                Open_w ''/proj/.nbexports/plain.txt'' (Some UTF8) (Some [LF]),
                Write ''/proj/.nbexports/plain.txt'' demo_script]\<rparr>)"
  by (rule demo_world_save [OF demo_from_filename_simps(3) plain_fullpath demo_dirname(3)
        demo_resolve(5) demo_not_endswith(3) demo_encode])

lemma demo_conv_ensure:
  "from_filename demo_env (disk demo_world)
     (fst (ensure_script_exporter demo_env demo_cm demo_world)) ''/proj/demo.ipynb''
     = Inr (demo_script, [''output_extension'' \<mapsto> ''.py''])"
  "from_filename demo_env (disk demo_world)
     (fst (ensure_script_exporter demo_env demo_cm demo_world)) ''/proj/plain.ipynb''
     = Inr (demo_script, Map.empty)"
  by (simp_all only: demo_from_filename_simps)

lemma demo_save_ok:
  "fst (script_post_save demo_env notebook_model ''/proj/demo.ipynb'' demo_cm demo_world) = Inr ()"
  "fst (script_post_save demo_env notebook_model ''/proj/plain.ipynb'' demo_cm demo_world) = Inr ()"
  by (simp_all only: demo_save plain_save fst_conv)

lemma demo_targets:
  "''/proj/.nbexports/demo.py'' =
     path_join (dir_path demo_env)
       [''.nbexports'', to_api_path (fst (splitext ''/proj/demo.ipynb'') @ ''.py'') (root_dir demo_cm)]"
  "''/proj/.nbexports/plain.txt'' =
     path_join (dir_path demo_env)
       [''.nbexports'', to_api_path (fst (splitext ''/proj/plain.ipynb'') @ ''.txt'') (root_dir demo_cm)]"
  by code_simp+

section \<open>The cached exporter\<close>

lemma script_exporter_export_script [simp]:
  "script_exporter (snd (export_script env x model os_path cm w)) = script_exporter w"
  by (simp add: export_script_def Let_def called_def split: sum.splits prod.splits)

lemma constructions_called:
  "constructions (called c w) =
     constructions w + (case c of New_ScriptExporter _ \<Rightarrow> 1 | _ \<Rightarrow> 0)"
  by (simp add: constructions_def called_def split: call.splits)

lemma constructions_export_script [simp]:
  "constructions (snd (export_script env x model os_path cm w)) = constructions w"
  by (simp add: export_script_def Let_def called_def constructions_def
      split: sum.splits prod.splits)

lemma From_filename_export_script:
  assumes "From_filename y q \<in> set (calls (snd (export_script env x model os_path cm w)))"
  shows "y = x \<or> From_filename y q \<in> set (calls w)"
  using assms
  by (auto simp add: export_script_def Let_def called_def split: sum.splits prod.splits)

lemma ensure_script_exporter_Some:
  assumes "script_exporter w = Some x"
  shows "ensure_script_exporter env cm w = (x, w)"
  using assms by (simp add: ensure_script_exporter_def)

lemma constructions_ensure:
  "constructions (snd (ensure_script_exporter env cm w)) =
     constructions w + (if script_exporter w = None then 1 else 0)"
  by (simp add: constructions_def calls_ensure)

lemma script_exporter_script_post_save:
  "script_exporter (snd (script_post_save env model os_path cm w)) =
     (if model ''type'' = Some ''notebook'' then Some (fst (ensure_script_exporter env cm w))
      else script_exporter w)"
proof (cases "model ''type'' = Some ''notebook''")
  case True
  then show ?thesis by (simp add: script_post_save_notebook)
next
  case False
  then show ?thesis by (simp add: script_post_save_def split: option.splits)
qed

lemma cache_consistent_script_post_save:
  assumes "cache_consistent w"
  shows "cache_consistent (snd (script_post_save env model os_path cm w))"
proof (cases "model ''type'' = Some ''notebook''")
  case False
  then have "snd (script_post_save env model os_path cm w) = w"
    by (simp add: script_post_save_def split: option.splits)
  with assms show ?thesis by simp
next
  case True
  let ?x = "fst (ensure_script_exporter env cm w)"
  let ?w = "snd (ensure_script_exporter env cm w)"
  let ?r = "snd (export_script env ?x model os_path cm ?w)"
  have r: "snd (script_post_save env model os_path cm w) = ?r"
    using True by (simp add: script_post_save_notebook)
  have one: "constructions ?w = 1"
    using assms
    by (simp add: constructions_ensure cache_consistent_def split: option.splits)
  have old: "y = ?x" if "From_filename y q \<in> set (calls ?w)" for y q
    using assms that
    by (auto simp add: calls_ensure cache_consistent_def ensure_script_exporter_Some
        split: option.splits if_splits)
  have "script_exporter ?r = Some ?x"
    by simp
  moreover have "constructions ?r = 1"
    using one by simp
  moreover have "y = ?x" if "From_filename y q \<in> set (calls ?r)" for y q
    using From_filename_export_script [OF that] old by blast
  ultimately show ?thesis
    unfolding r by (simp add: cache_consistent_def)
qed

lemma cache_consistent_saves:
  assumes "cache_consistent w"
  shows "cache_consistent (saves env evs w)"
  using assms
  by (induction evs arbitrary: w) (simp_all add: cache_consistent_script_post_save)

lemma saves_append: "saves env (xs @ ys) w = saves env ys (saves env xs w)"
  by (induction xs arbitrary: w) simp_all

lemma script_exporter_kept:
  assumes "script_exporter w = Some x"
  shows "script_exporter (saves env evs w) = Some x"
  using assms
proof (induction evs arbitrary: w)
  case Nil
  then show ?case by simp
next
  case (Cons ev evs)
  have "script_exporter
      (snd (script_post_save env (ev_model ev) (ev_os_path ev) (ev_contents_manager ev) w))
      = Some x"
    using Cons.prems
    by (simp add: script_exporter_script_post_save ensure_script_exporter_Some)
  then show ?case
    using Cons.IH by simp
qed

lemma script_exporter_saves_None:
  assumes "script_exporter w = None"
  shows "script_exporter (saves env evs w) = None \<longleftrightarrow> \<not> list_ex is_notebook_save evs"
  using assms
proof (induction evs arbitrary: w)
  case Nil
  then show ?case by simp
next
  case (Cons ev evs)
  let ?w = "snd (script_post_save env (ev_model ev) (ev_os_path ev) (ev_contents_manager ev) w)"
  show ?case
  proof (cases "is_notebook_save ev")
    case True
    then obtain x where "script_exporter ?w = Some x"
      by (simp add: script_exporter_script_post_save is_notebook_save_def)
    then have "script_exporter (saves env evs ?w) = Some x"
      by (rule script_exporter_kept)
    with True show ?thesis by simp
  next
    case False
    then have "script_exporter ?w = None"
      using Cons.prems by (simp add: script_exporter_script_post_save is_notebook_save_def)
    from Cons.IH [OF this] False show ?thesis by simp
  qed
qed

lemma cache_consistent_fresh:
  assumes "script_exporter w = None" and "calls w = []"
  shows "cache_consistent w"
  using assms by (simp add: cache_consistent_def constructions_def)

lemma demo_events_notebook:
  "list_ex is_notebook_save
     [save_of file_model ''/proj/notes.txt'', save_of notebook_model ''/proj/demo.ipynb'',
      save_of notebook_model ''/proj/bad.ipynb'', save_of notebook_model ''/proj/demo.ipynb'']"
  "\<not> list_ex is_notebook_save [save_of file_model ''/proj/notes.txt'']"
  by (simp_all add: is_notebook_save_def save_of_def notebook_model_def file_model_def)

lemma demo_two_saves:
  "script_exporter
     (saves demo_env
        [save_of file_model ''/proj/notes.txt'', save_of notebook_model ''/proj/demo.ipynb'']
        demo_world) = Some demo_exporter"
proof -
  have "script_post_save demo_env file_model ''/proj/notes.txt'' demo_cm demo_world
      = (Inr (), demo_world)"
    by (simp add: script_post_save_def file_model_def)
  then show ?thesis
    by (simp add: save_of_def demo_save)
qed

section \<open>Facts about the file system\<close>

lemma prefixes_from_not_Nil: "d \<in> set (prefixes_from done cs) \<Longrightarrow> d \<noteq> []"
  by (induction cs arbitrary: "done") auto

lemma makedirs_from_Inr:
  assumes "makedirs_from ok done cs fs = Inr fs'"
  shows "fs' = fs\<lparr>dirs := dirs fs \<union> set (prefixes_from done cs)\<rparr>"
  using assms
proof (induction cs arbitrary: "done" fs)
  case Nil
  then show ?case by simp
next
  case (Cons c cs)
  let ?d = "done @ [c]"
  show ?case
  proof (cases "isdir fs ?d")
    case True
    then have d: "?d \<in> dirs fs"
      by (simp add: isdir_def)
    from Cons.prems True have "makedirs_from ok ?d cs fs = Inr fs'"
      by (simp add: Let_def split: if_splits)
    from Cons.IH [OF this] d show ?thesis
      by (simp add: insert_absorb)
  next
    case False
    with Cons.prems have
      "makedirs_from ok ?d cs (fs\<lparr>dirs := insert ?d (dirs fs)\<rparr>) = Inr fs'"
      by (simp add: Let_def split: if_splits)
    from Cons.IH [OF this] show ?thesis
      by simp
  qed
qed

lemma makedirs_from_existing:
  assumes "\<forall>d \<in> set (prefixes_from done cs). isdir fs d"
  shows "makedirs_from True done cs fs = Inr fs"
  using assms
  by (induction cs arbitrary: "done") (simp_all add: Let_def)

lemma makedirs_Inr:
  assumes "makedirs name ok fs = Inr fs'"
  shows "name \<noteq> [] \<and> fs' = fs\<lparr>dirs := dirs fs \<union> set (prefixes_from [] (resolve name))\<rparr>"
  using assms makedirs_from_Inr [of ok "[]" "resolve name" fs fs']
  by (auto simp add: makedirs_def split: if_splits)

lemma makedirs_existing:
  assumes "name \<noteq> []" and "\<forall>d \<in> set (prefixes_from [] (resolve name)). isdir fs d"
  shows "makedirs name True fs = Inr fs"
  using assms by (simp add: makedirs_def makedirs_from_existing)

lemma ancestors_shorter: "a \<in> set (ancestors p) \<Longrightarrow> length a < length p"
  by (induction p arbitrary: a) (auto split: if_splits)

lemma open_w_Inr_iff:
  "open_w name fs = Inr fs' \<longleftrightarrow>
     name \<noteq> [] \<and> \<not> isdir fs (resolve name) \<and> \<not> endswith name [sep] \<and>
     \<not> list_ex (isfile fs) (ancestors (resolve name)) \<and> isdir fs (butlast (resolve name)) \<and>
     fs' = fs\<lparr>files := (files fs)(resolve name \<mapsto> [])\<rparr>"
  by (auto simp add: open_w_def Let_def isdir_def)

lemma write_text_utf8_Inr:
  assumes "write_text pf (Some UTF8) (Some [LF]) name s fs = Inr fs'"
  shows "\<exists>bs. encode UTF8 s = Inr bs \<and> fs' = fs\<lparr>files := (files fs)(resolve name \<mapsto> bs)\<rparr>"
  using assms by (auto simp add: write_text_utf8 split: sum.splits)

text \<open>A file that was opened for writing and written can be opened and written again.\<close>

lemma open_w_again:
  assumes "open_w name fs = Inr fs5"
  shows "open_w name (fs\<lparr>files := (files fs)(resolve name \<mapsto> bs)\<rparr>)
           = Inr (fs\<lparr>files := (files fs)(resolve name \<mapsto> [])\<rparr>)"
proof -
  let ?p = "resolve name"
  let ?fs = "fs\<lparr>files := (files fs)(?p \<mapsto> bs)\<rparr>"
  have c: "name \<noteq> []" "\<not> isdir fs ?p" "\<not> endswith name [sep]"
    "\<not> list_ex (isfile fs) (ancestors ?p)" "isdir fs (butlast ?p)"
    using assms by (simp_all add: open_w_Inr_iff)
  have "\<not> list_ex (isfile ?fs) (ancestors ?p)"
  proof
    assume "list_ex (isfile ?fs) (ancestors ?p)"
    then obtain a where a: "a \<in> set (ancestors ?p)" "isfile ?fs a"
      by (auto simp add: list_ex_iff)
    then have "a \<noteq> ?p"
      using ancestors_shorter by blast
    with a have "isfile fs a"
      by (simp add: isfile_def)
    with a(1) c(4) show False
      by (auto simp add: list_ex_iff)
  qed
  moreover have "\<not> isdir ?fs ?p" "isdir ?fs (butlast ?p)"
    using c by (simp_all add: isdir_def)
  ultimately show ?thesis
    using c by (simp add: open_w_Inr_iff)
qed

lemma export_script_again:
  assumes conv: "from_filename env (disk w) x os_path = Inr (script, res)"
    and ok: "export_script env x model os_path cm w = (Inr (), w1)"
    and conv1: "from_filename env (disk w1) x os_path = Inr (script, res)"
  shows "\<exists>bs. encode UTF8 script = Inr bs \<and>
           files (disk w1) = (files (disk w))(resolve (script_fullpath env os_path res cm) \<mapsto> bs) \<and>
           fst (export_script env x model os_path cm w1) = Inr () \<and>
           disk (snd (export_script env x model os_path cm w1)) = disk w1"
proof -
  let ?f = "script_fullpath env os_path res cm"
  let ?p = "resolve ?f"
  obtain fs3 fs5 fs6 where st:
    "makedirs (dirname ?f) True (disk w) = Inr fs3"
    "open_w ?f fs3 = Inr fs5"
    "write_text (host env) (Some UTF8) (Some [LF]) ?f script fs5 = Inr fs6"
    using export_script_returnsD [OF _ conv, of model cm] ok by auto
  have w1: "disk w1 = fs6"
    using export_script_returns [OF conv st, of model] ok by auto
  have fs3: "dirname ?f \<noteq> []"
    "fs3 = (disk w)\<lparr>dirs := dirs (disk w) \<union> set (prefixes_from [] (resolve (dirname ?f)))\<rparr>"
    using makedirs_Inr [OF st(1)] by simp_all
  have fs5: "fs5 = fs3\<lparr>files := (files fs3)(?p \<mapsto> [])\<rparr>"
    using st(2) by (simp add: open_w_Inr_iff)
  obtain bs where bs: "encode UTF8 script = Inr bs"
    and fs6: "fs6 = fs5\<lparr>files := (files fs5)(?p \<mapsto> bs)\<rparr>"
    using write_text_utf8_Inr [OF st(3)] by blast
  have fs6': "fs6 = fs3\<lparr>files := (files fs3)(?p \<mapsto> bs)\<rparr>"
    by (simp add: fs6 fs5)
  have files: "files (disk w1) = (files (disk w))(?p \<mapsto> bs)"
    by (simp add: w1 fs6' fs3(2))
  have "\<forall>d \<in> set (prefixes_from [] (resolve (dirname ?f))). isdir fs6 d"
    by (simp add: fs6' fs3(2) isdir_def)
  then have m: "makedirs (dirname ?f) True (disk w1) = Inr fs6"
    using fs3(1) by (simp add: w1 makedirs_existing)
  have o: "open_w ?f fs6 = Inr fs5"
    using open_w_again [OF st(2), of bs] by (simp add: fs6' fs5)
  have r: "export_script env x model os_path cm w1 =
      (Inr (), w1\<lparr>disk := fs6,
         calls := calls w1 @
           [From_filename x os_path, Makedirs (dirname ?f) True,
            Log_info (log cm) ''Saving script /%s'' [?f],
            Open_w ?f (Some UTF8) (Some [LF]), Write ?f script]\<rparr>)"
    by (rule export_script_returns [OF conv1 m o st(3)])
  show ?thesis
    using bs files by (simp add: r w1)
qed

lemma demo_resave_conv:
  "from_filename demo_env
     (disk (snd (script_post_save demo_env notebook_model ''/proj/demo.ipynb'' demo_cm demo_world)))
     (fst (ensure_script_exporter demo_env demo_cm demo_world)) ''/proj/demo.ipynb''
     = Inr (demo_script, [''output_extension'' \<mapsto> ''.py''])"
  by (simp only: demo_from_filename_simps)

section \<open>Facts about paths\<close>

lemma startswith_sep: "startswith s [c] \<longleftrightarrow> s \<noteq> [] \<and> hd s = c"
  by (cases s) (auto simp add: startswith_def)

lemma endswith_sep: "endswith s [c] \<longleftrightarrow> s \<noteq> [] \<and> last s = c"
  by (cases s rule: rev_cases) (auto simp add: endswith_def)

lemma startswith_append [simp]: "startswith (r @ z) r"
  by (simp add: startswith_def)

subsection \<open>Joining\<close>

lemma path_join_relative:
  assumes "\<not> startswith b [sep]"
  shows "path_join P [b] = (if P = [] \<or> endswith P [sep] then P @ b else P @ sep # b)"
  using assms by simp

lemma nbexports_path_form: "\<exists>q. nbexports_path env = q @ ''.nbexports''"
  by (simp add: nbexports_path_def startswith_def)

lemma nbexports_path_not_Nil: "nbexports_path env \<noteq> []"
  using nbexports_path_form [of env] by auto

lemma nbexports_path_no_trailing_sep: "\<not> endswith (nbexports_path env) [sep]"
  using nbexports_path_form [of env] by (auto simp add: endswith_sep)

lemma path_join_nbexports:
  assumes "\<not> startswith b [sep]"
  shows "path_join (dir_path env) [''.nbexports'', b] = nbexports_path env @ sep # b"
proof -
  have "path_join (dir_path env) [''.nbexports'', b] = path_join (nbexports_path env) [b]"
    by (simp add: nbexports_path_def)
  then show ?thesis
    using assms nbexports_path_not_Nil [of env] nbexports_path_no_trailing_sep [of env]
    by (simp only: path_join_relative [OF assms] if_False simp_thms)
qed

lemma hd_join:
  assumes "ws \<noteq> []" and "hd ws \<noteq> []"
  shows "hd (join c ws) = hd (hd ws)"
proof (cases ws)
  case Nil
  with assms show ?thesis by simp
next
  case (Cons w rest)
  with assms show ?thesis by (cases rest) auto
qed

lemma join_Nil_iff: "join c ws = [] \<longleftrightarrow> ws = [] \<or> ws = [[]]"
proof (cases ws)
  case Nil
  then show ?thesis by simp
next
  case (Cons w rest)
  then show ?thesis by (cases rest) auto
qed

lemma to_api_path_no_leading_sep: "\<not> startswith (to_api_path s root) [sep]"
proof -
  define ws where
    "ws = filter (\<lambda>p. p \<noteq> [])
       (split sep (strip sep (if startswith s root then drop (length root) s else s)))"
  have t: "to_api_path s root = join sep ws"
    by (simp add: to_api_path_def ws_def Let_def)
  show ?thesis
  proof (cases "ws = []")
    case True
    then show ?thesis by (simp add: t startswith_def)
  next
    case False
    then have "hd ws \<in> set ws" by simp
    then have "hd ws \<noteq> []" "sep \<notin> set (hd ws)"
      by (auto simp add: ws_def dest: split_fields_no_sep)
    then have "hd (join sep ws) \<noteq> sep"
      using hd_join [OF False, of sep] by (metis hd_in_set)
    then show ?thesis by (simp add: t startswith_sep)
  qed
qed

lemma script_fullpath_nbexports:
  "script_fullpath env os_path res cm = nbexports_path env @ sep # script_repopath os_path res cm"
  unfolding script_fullpath_def script_repopath_def
  by (rule path_join_nbexports) (rule to_api_path_no_leading_sep)

subsection \<open>The directory of a path\<close>

lemma dirname_not_Nil:
  assumes "x \<in> set a" and "x \<noteq> sep"
  shows "dirname (a @ sep # b) \<noteq> []"
proof -
  let ?f = "a @ sep # b"
  let ?h = "take (nat (rfind ?f sep + 1)) ?f"
  have "int (length a) \<le> rfind ?f sep"
    using rfind_ge [of b sep] by (simp add: rfind_append rfind_Cons_same del: rfind.simps)
  then have "length a \<le> nat (rfind ?f sep + 1)"
    by simp
  then have "?h = a @ take (nat (rfind ?f sep + 1) - length a) (sep # b)"
    by simp
  then have x: "x \<in> set ?h"
    using assms(1) by simp
  then have "?h \<noteq> replicate (length ?h) sep"
    using assms(2) by (metis in_set_replicate)
  moreover have "rstrip sep ?h \<noteq> []"
    using x assms(2) by (rule rstrip_not_Nil)
  ultimately show ?thesis
    using x by (auto simp add: dirname_def Let_def)
qed

lemma dirname_script_fullpath_not_Nil: "dirname (script_fullpath env os_path res cm) \<noteq> []"
proof -
  obtain q where "nbexports_path env = q @ ''.nbexports''"
    using nbexports_path_form by blast
  then have "CHR ''n'' \<in> set (nbexports_path env)"
    by simp
  then show ?thesis
    unfolding script_fullpath_nbexports by (rule dirname_not_Nil) simp
qed

lemma resolve_snoc_sep: "resolve (s @ [sep]) = resolve s"
  by (simp add: resolve_def split_snoc_sep)

lemma resolve_rstrip: "resolve (rstrip sep s) = resolve s"
proof (induction s rule: rev_induct)
  case Nil
  then show ?case by (simp add: rstrip_def)
next
  case (snoc x s)
  show ?case
  proof (cases "x = sep")
    case True
    with snoc show ?thesis by (simp add: resolve_snoc_sep)
  next
    case False
    then show ?thesis by (simp add: rstrip_id)
  qed
qed

lemma resolve_dirname:
  assumes "f \<noteq> []" and "last f \<noteq> sep"
  shows "resolve (dirname f) = butlast (resolve f)"
proof (cases "sep \<in> set f")
  case False
  then have "rfind f sep = - 1"
    by (rule rfind_notin)
  then have "dirname f = []"
    by (simp add: dirname_def)
  moreover have "resolve f = [f]"
    using False assms(1) by (simp add: resolve_def split_no_sep)
  ultimately show ?thesis
    by (simp add: resolve_def)
next
  case True
  then obtain a b where f: "f = a @ sep # b" and b: "sep \<notin> set b"
    and r: "rfind f sep = int (length a)"
    using rfind_split by blast
  have bne: "b \<noteq> []"
    using assms(2) f by auto
  have "nat (rfind f sep + 1) = Suc (length a)"
    by (simp add: r)
  then have h: "take (nat (rfind f sep + 1)) f = a @ [sep]"
    by (simp add: f)
  have "resolve (dirname f) = resolve (a @ [sep])"
    by (simp add: dirname_def Let_def h resolve_rstrip del: rstrip_snoc_sep)
  then have 1: "resolve (dirname f) = resolve a"
    by (simp add: resolve_snoc_sep)
  have "resolve f = resolve a @ [b]"
    using b bne by (simp add: resolve_def f split_append_sep split_no_sep)
  with 1 show ?thesis by simp
qed

subsection \<open>A notebook in a subdirectory of the small installation\<close>

lemma nested_stage_facts:
  "makedirs ''/proj/.nbexports/a/b'' True (disk demo_world)
     = Inr \<lparr>dirs = {[''proj'', ''.nbexports'', ''a'', ''b''], [''proj'', ''.nbexports'', ''a''],
                    [''proj'', ''.nbexports''], [''proj'']},
            files = Map.empty\<rparr>"
  "open_w ''/proj/.nbexports/a/b/Notebook.py''
       \<lparr>dirs = {[''proj'', ''.nbexports'', ''a'', ''b''], [''proj'', ''.nbexports'', ''a''],
                [''proj'', ''.nbexports''], [''proj'']},
        files = Map.empty\<rparr>
     = Inr \<lparr>dirs = {[''proj'', ''.nbexports'', ''a'', ''b''], [''proj'', ''.nbexports'', ''a''],
                    [''proj'', ''.nbexports''], [''proj'']},
            files = [[''proj'', ''.nbexports'', ''a'', ''b'', ''Notebook.py''] \<mapsto> []]\<rparr>"
  "write_text pf (Some UTF8) (Some [LF]) ''/proj/.nbexports/a/b/Notebook.py'' demo_script
       \<lparr>dirs = {[''proj'', ''.nbexports'', ''a'', ''b''], [''proj'', ''.nbexports'', ''a''],
                [''proj'', ''.nbexports''], [''proj'']},
        files = [[''proj'', ''.nbexports'', ''a'', ''b'', ''Notebook.py''] \<mapsto> []]\<rparr>
     = Inr \<lparr>dirs = {[''proj'', ''.nbexports'', ''a'', ''b''], [''proj'', ''.nbexports'', ''a''],
                    [''proj'', ''.nbexports''], [''proj'']},
            files = [[''proj'', ''.nbexports'', ''a'', ''b'', ''Notebook.py'']
                       \<mapsto> [112, 114, 105, 110, 116, 40, 49, 41, 10]]\<rparr>"
    apply (simp add: makedirs_def demo_resolve isdir_def isfile_def demo_world_def)
   apply (simp add: open_w_def demo_resolve demo_not_endswith isdir_def isfile_def)
  apply (simp add: write_text_utf8 demo_encode demo_resolve del: encode.simps)
  done

lemma nested_save:
  "script_post_save demo_env notebook_model ''/proj/a/b/Notebook.ipynb'' demo_cm demo_world =
     (Inr (),
      \<lparr>disk = \<lparr>dirs = {[''proj'', ''.nbexports'', ''a'', ''b''], [''proj'', ''.nbexports'', ''a''],
                       [''proj'', ''.nbexports''], [''proj'']},
               files = [[''proj'', ''.nbexports'', ''a'', ''b'', ''Notebook.py'']
                          \<mapsto> [112, 114, 105, 110, 116, 40, 49, 41, 10]]\<rparr>,
       script_exporter = Some demo_exporter,
       calls = [New_ScriptExporter demo_cm,
                From_filename demo_exporter ''/proj/a/b/Notebook.ipynb'',
                Makedirs ''/proj/.nbexports/a/b'' True,
                Log_info ''NotebookApp'' ''Saving script /%s'' [''/proj/.nbexports/a/b/Notebook.py''],
                Open_w ''/proj/.nbexports/a/b/Notebook.py'' (Some UTF8) (Some [LF]),
                Write ''/proj/.nbexports/a/b/Notebook.py'' demo_script]\<rparr>)"
proof -
  let ?w = "demo_world\<lparr>calls := [New_ScriptExporter demo_cm], script_exporter := Some demo_exporter\<rparr>"
  let ?p = "''/proj/a/b/Notebook.ipynb''"
  let ?res = "[''output_extension'' \<mapsto> ''.py'']"
  have 1: "from_filename demo_env (disk ?w) demo_exporter ?p = Inr (demo_script, ?res)"
    by (simp only: demo_from_filename_simps)
  have d: "disk ?w = disk demo_world"
    by simp
  note st = nested_stage_facts
  have 2: "makedirs (dirname (script_fullpath demo_env ?p ?res demo_cm)) True (disk ?w) = Inr
     \<lparr>dirs = {[''proj'', ''.nbexports'', ''a'', ''b''], [''proj'', ''.nbexports'', ''a''],
                    [''proj'', ''.nbexports''], [''proj'']},
            files = Map.empty\<rparr>"
    by (simp only: nested_fullpath demo_dirname d st)
  have 3: "open_w (script_fullpath demo_env ?p ?res demo_cm) \<lparr>dirs = {[''proj'', ''.nbexports'', ''a'', ''b''], [''proj'', ''.nbexports'', ''a''],
                    [''proj'', ''.nbexports''], [''proj'']},
            files = Map.empty\<rparr> = Inr \<lparr>dirs = {[''proj'', ''.nbexports'', ''a'', ''b''], [''proj'', ''.nbexports'', ''a''],
                    [''proj'', ''.nbexports''], [''proj'']},
            files = [[''proj'', ''.nbexports'', ''a'', ''b'', ''Notebook.py''] \<mapsto> []]\<rparr>"
    by (simp only: nested_fullpath st)
  have 4: "write_text (host demo_env) (Some UTF8) (Some [LF]) (script_fullpath demo_env ?p ?res demo_cm) demo_script
      \<lparr>dirs = {[''proj'', ''.nbexports'', ''a'', ''b''], [''proj'', ''.nbexports'', ''a''],
                    [''proj'', ''.nbexports''], [''proj'']},
            files = [[''proj'', ''.nbexports'', ''a'', ''b'', ''Notebook.py''] \<mapsto> []]\<rparr>
     = Inr \<lparr>dirs = {[''proj'', ''.nbexports'', ''a'', ''b''], [''proj'', ''.nbexports'', ''a''],
                    [''proj'', ''.nbexports''], [''proj'']},
            files = [[''proj'', ''.nbexports'', ''a'', ''b'', ''Notebook.py'']
                       \<mapsto> [112, 114, 105, 110, 116, 40, 49, 41, 10]]\<rparr>"
    by (simp only: nested_fullpath st)
  have s: "script_post_save demo_env notebook_model ?p demo_cm demo_world =
      export_script demo_env demo_exporter notebook_model ?p demo_cm ?w"
    by (simp add: script_post_save_notebook notebook_model_type demo_ensure_world)
  show ?thesis
    unfolding s export_script_returns [OF 1 2 3 4]
    by (simp add: nested_fullpath demo_dirname demo_log demo_world_def)
qed

lemma nested_conv_ensure:
  "from_filename demo_env (disk demo_world)
     (fst (ensure_script_exporter demo_env demo_cm demo_world)) ''/proj/a/b/Notebook.ipynb''
     = Inr (demo_script, [''output_extension'' \<mapsto> ''.py''])"
  "from_filename demo_env (disk occupied_world)
     (fst (ensure_script_exporter demo_env demo_cm occupied_world)) ''/proj/demo.ipynb''
     = Inr (demo_script, [''output_extension'' \<mapsto> ''.py''])"
  by (simp_all only: demo_from_filename_simps)

subsection \<open>Splitting off the extension\<close>

lemma splitext_loop_iff:
  "splitext_loop p i j \<longleftrightarrow> (\<exists>k. i \<le> k \<and> k < j \<and> p ! k \<noteq> extsep)"
proof (induction p i j rule: splitext_loop.induct)
  case (1 p i j)
  show ?case
  proof (cases "i < j")
    case False
    then show ?thesis
      by (subst splitext_loop.simps) auto
  next
    case True
    show ?thesis
    proof (cases "p ! i \<noteq> extsep")
      case True
      with \<open>i < j\<close> show ?thesis
        by (subst splitext_loop.simps) auto
    next
      case False
      then have "splitext_loop p i j = splitext_loop p (i + 1) j"
        using \<open>i < j\<close> by (subst splitext_loop.simps) simp
      also have "\<dots> \<longleftrightarrow> (\<exists>k. i + 1 \<le> k \<and> k < j \<and> p ! k \<noteq> extsep)"
        using "1.IH" \<open>i < j\<close> False by simp
      also have "\<dots> \<longleftrightarrow> (\<exists>k. i \<le> k \<and> k < j \<and> p ! k \<noteq> extsep)"
        using False by (metis Suc_eq_plus1 Suc_leD Suc_leI le_neq_implies_less)
      finally show ?thesis .
    qed
  qed
qed

lemma splitext_loop_shift:
  "splitext_loop (a @ s) (length a + i) (length a + j) = splitext_loop s i j"
proof -
  have "(\<exists>k. length a + i \<le> k \<and> k < length a + j \<and> (a @ s) ! k \<noteq> extsep)
      \<longleftrightarrow> (\<exists>k. i \<le> k \<and> k < j \<and> s ! k \<noteq> extsep)"
  proof
    assume "\<exists>k. length a + i \<le> k \<and> k < length a + j \<and> (a @ s) ! k \<noteq> extsep"
    then obtain k where k: "length a + i \<le> k" "k < length a + j" "(a @ s) ! k \<noteq> extsep"
      by blast
    then have "i \<le> k - length a" "k - length a < j" "s ! (k - length a) \<noteq> extsep"
      by (auto simp add: nth_append)
    then show "\<exists>k. i \<le> k \<and> k < j \<and> s ! k \<noteq> extsep"
      by blast
  next
    assume "\<exists>k. i \<le> k \<and> k < j \<and> s ! k \<noteq> extsep"
    then obtain k where k: "i \<le> k" "k < j" "s ! k \<noteq> extsep"
      by blast
    then have "length a + i \<le> length a + k" "length a + k < length a + j"
      "(a @ s) ! (length a + k) \<noteq> extsep"
      by (auto simp add: nth_append)
    then show "\<exists>k. length a + i \<le> k \<and> k < length a + j \<and> (a @ s) ! k \<noteq> extsep"
      by blast
  qed
  then show ?thesis
    by (simp only: splitext_loop_iff)
qed

lemma after_last_occurrence: "c \<notin> set (drop (nat (rfind s c + 1)) s)"
proof (cases "c \<in> set s")
  case False
  then show ?thesis
    by (meson in_set_dropD)
next
  case True
  then obtain a b where s: "s = a @ c # b" and b: "c \<notin> set b"
    and r: "rfind s c = int (length a)"
    using rfind_split by blast
  have "nat (rfind s c + 1) = Suc (length a)"
    by (simp add: r)
  then have "drop (nat (rfind s c + 1)) s = b"
    by (simp add: s)
  with b show ?thesis by simp
qed

text \<open>The extension has no separator and, when there is one, leaves a name before it.\<close>

lemma splitext_parts:
  assumes "splitext p = (b, x)"
  shows "p = b @ x \<and> sep \<notin> set x \<and> (x \<noteq> [] \<longrightarrow> b \<noteq> [] \<and> last b \<noteq> sep)"
proof (cases "rfind p extsep > rfind p sep \<and>
    splitext_loop p (nat (rfind p sep + 1)) (nat (rfind p extsep))")
  case False
  then have "b = p" "x = []"
    using assms by (auto simp add: splitext_def Let_def)
  then show ?thesis by simp
next
  case True
  let ?S = "nat (rfind p sep + 1)"
  let ?D = "nat (rfind p extsep)"
  have bx: "b = take ?D p" "x = drop ?D p"
    using assms True by (auto simp add: splitext_def Let_def)
  obtain k where k: "?S \<le> k" "k < ?D" "p ! k \<noteq> extsep"
    using True by (auto simp add: splitext_loop_iff)
  have D: "?D < length p"
    using rfind_lt_length [of p extsep] k by linarith
  have tail: "sep \<notin> set (drop ?S p)"
    by (rule after_last_occurrence)
  have "set x \<subseteq> set (drop ?S p)"
    unfolding bx using k by (intro set_drop_subset_set_drop) simp
  with tail have 1: "sep \<notin> set x"
    by blast
  have bne: "b \<noteq> []"
    unfolding bx using k D by auto
  have lb: "length b = ?D"
    unfolding bx using D by simp
  have "last b = b ! (?D - 1)"
    using bne lb by (simp add: last_conv_nth)
  also have "\<dots> = p ! (?D - 1)"
    unfolding bx using k by simp
  also have "\<dots> = drop ?S p ! (?D - 1 - ?S)"
    using k D by simp
  also have "\<dots> \<in> set (drop ?S p)"
    using k D by (intro nth_mem) simp
  finally have 2: "last b \<noteq> sep"
    using tail by metis
  show ?thesis
    using 1 2 bne by (simp add: bx)
qed

lemma splitext_append_sep:
  "splitext (pre @ sep # p) = (pre @ sep # fst (splitext p), snd (splitext p))"
proof -
  let ?a = "pre @ [sep]"
  let ?L = "length ?a"
  have f: "pre @ sep # p = ?a @ p"
    by simp
  have S: "rfind (?a @ p) sep = int ?L + rfind p sep"
  proof (cases "sep \<in> set p")
    case True
    then show ?thesis by (simp only: rfind_append if_True)
  next
    case False
    then have "rfind p sep = - 1"
      by (rule rfind_notin)
    moreover have "rfind ?a sep = int (length pre)"
      using rfind_last_occurrence [of sep "[]" pre] by simp
    ultimately show ?thesis
      using False by (simp only: rfind_append if_False) simp
  qed
  show ?thesis
  proof (cases "extsep \<in> set p")
    case False
    then have D: "rfind p extsep = - 1"
      by (rule rfind_notin)
    have "rfind (?a @ p) extsep = rfind ?a extsep"
      using False by (simp only: rfind_append if_False)
    then have "rfind (?a @ p) extsep < int ?L"
      using rfind_lt_length [of ?a extsep] by simp
    then have "\<not> rfind (?a @ p) extsep > rfind (?a @ p) sep"
      using S rfind_ge [of p sep] by linarith
    then have 1: "splitext (?a @ p) = (?a @ p, [])"
      by (simp add: splitext_def Let_def)
    have "\<not> rfind p extsep > rfind p sep"
      using D rfind_ge [of p sep] by linarith
    then have "splitext p = (p, [])"
      by (simp add: splitext_def Let_def)
    with 1 show ?thesis
      by (simp only: f) simp
  next
    case True
    then have D: "rfind (?a @ p) extsep = int ?L + rfind p extsep"
      by (simp only: rfind_append if_True)
    have D0: "0 \<le> rfind p extsep"
      using True rfind_neg_iff [of p extsep] by linarith
    have nS: "nat (rfind (?a @ p) sep + 1) = ?L + nat (rfind p sep + 1)"
      using S rfind_ge [of p sep] by (simp add: nat_add_distrib)
    have nD: "nat (rfind (?a @ p) extsep) = ?L + nat (rfind p extsep)"
      using D D0 by (simp add: nat_add_distrib)
    have c: "rfind (?a @ p) extsep > rfind (?a @ p) sep \<longleftrightarrow> rfind p extsep > rfind p sep"
      using S D by linarith
    have l: "splitext_loop (?a @ p) (nat (rfind (?a @ p) sep + 1)) (nat (rfind (?a @ p) extsep))
        = splitext_loop p (nat (rfind p sep + 1)) (nat (rfind p extsep))"
      unfolding nS nD by (rule splitext_loop_shift)
    have t: "take (nat (rfind (?a @ p) extsep)) (?a @ p) = ?a @ take (nat (rfind p extsep)) p"
      "drop (nat (rfind (?a @ p) extsep)) (?a @ p) = drop (nat (rfind p extsep)) p"
      unfolding nD by simp_all
    have "splitext (?a @ p) = (?a @ fst (splitext p), snd (splitext p))"
      unfolding splitext_def Let_def c l t by simp
    then show ?thesis
      by (simp only: f) simp
  qed
qed

subsection \<open>Relative paths\<close>

lemma relative_pathD:
  assumes "relative_path s"
  shows "s \<noteq> []" and "hd s \<noteq> sep" and "last s \<noteq> sep"
proof -
  have "hd (split sep s) \<in> set (split sep s)" "last (split sep s) \<in> set (split sep s)"
    by simp_all
  then have "hd (split sep s) \<noteq> []" "last (split sep s) \<noteq> []"
    using assms unfolding relative_path_def by metis+
  then show "s \<noteq> []" and "hd s \<noteq> sep" and "last s \<noteq> sep"
    by (auto simp add: hd_split_Nil last_split_Nil)
qed

lemma strip_relative_path:
  assumes "relative_path s"
  shows "strip sep s = s" and "strip sep (sep # s) = s"
  using relative_pathD [OF assms] by (simp_all add: strip_def lstrip_id rstrip_id)

lemma to_api_path_relative:
  assumes "relative_path rel"
  shows "to_api_path (root @ rel) root = rel" and "to_api_path (root @ sep # rel) root = rel"
proof -
  have "filter (\<lambda>p. p \<noteq> []) (split sep rel) = split sep rel"
    using assms by (auto simp add: relative_path_def filter_id_conv)
  then show "to_api_path (root @ rel) root = rel"
    and "to_api_path (root @ sep # rel) root = rel"
    by (simp_all add: to_api_path_def Let_def strip_relative_path [OF assms] join_split)
qed

lemma relative_path_new_extension:
  assumes "relative_path p" and "sep \<notin> set e"
  shows "relative_path (fst (splitext p) @ e)"
proof -
  obtain b x where s: "splitext p = (b, x)"
    by (cases "splitext p")
  then have p: "p = b @ x" and x: "sep \<notin> set x"
    and b: "x \<noteq> [] \<longrightarrow> b \<noteq> [] \<and> last b \<noteq> sep"
    using splitext_parts by blast+
  have sp: "split sep p = butlast (split sep b) @ [last (split sep b) @ x]"
    unfolding p using x by (rule split_append_no_sep)
  have se: "split sep (b @ e) = butlast (split sep b) @ [last (split sep b) @ e]"
    using assms(2) by (rule split_append_no_sep)
  have init: "[] \<notin> set (butlast (split sep b))"
    using assms(1) by (simp add: relative_path_def sp)
  have "last (split sep b) \<noteq> []"
  proof (cases "x = []")
    case True
    then have "[] \<notin> set (split sep b)"
      using assms(1) p by (simp add: relative_path_def)
    then show ?thesis
      by (metis last_in_set split_not_Nil)
  next
    case False
    with b show ?thesis by (simp add: last_split_Nil)
  qed
  then have "last (split sep b) @ e \<noteq> []"
    by simp
  with init show ?thesis
    by (simp add: relative_path_def se s)
qed

text \<open>The path of a notebook under the root: the root, a separator where it is needed, the relative path.\<close>

lemma script_repopath_relative:
  assumes "relative_path p" and "sep \<notin> set e" and "res ''output_extension'' = Some e"
    and "os_path = path_join (root_dir cm) [p]"
  shows "script_repopath os_path res cm = fst (splitext p) @ e"
proof -
  let ?root = "root_dir cm"
  let ?rel = "fst (splitext p) @ e"
  have rel: "relative_path ?rel"
    using assms(1,2) by (rule relative_path_new_extension)
  have ns: "\<not> startswith p [sep]"
    using relative_pathD [OF assms(1)] by (simp add: startswith_sep)
  consider (empty) "?root = []" | (slash) q where "?root = q @ [sep]"
    | (plain) "?root \<noteq> []" "\<not> endswith ?root [sep]"
    by (metis endswith_sep append_butlast_last_id)
  then show ?thesis
  proof cases
    case empty
    then have "os_path = p"
      using assms(4) ns by simp
    then have "script_fname os_path res = ?rel"
      using assms(3) by (simp add: script_fname_def split_def)
    then show ?thesis
      using to_api_path_relative(1) [OF rel, of "[]"] empty
      by (simp add: script_repopath_def)
  next
    case slash
    then have "os_path = q @ sep # p"
      using assms(4) ns by (simp add: endswith_sep)
    then have "script_fname os_path res = ?root @ ?rel"
      using assms(3) slash by (simp add: script_fname_def splitext_append_sep)
    then show ?thesis
      using to_api_path_relative(1) [OF rel, of ?root]
      by (simp add: script_repopath_def)
  next
    case plain
    then have "os_path = ?root @ sep # p"
      using assms(4) ns by simp
    then have "script_fname os_path res = ?root @ sep # ?rel"
      using assms(3) by (simp add: script_fname_def splitext_append_sep)
    then show ?thesis
      using to_api_path_relative(2) [OF rel, of ?root]
      by (simp add: script_repopath_def)
  qed
qed

lemma nested_path_facts:
  "relative_path ''a/b/Notebook.ipynb''"
  "''/proj/a/b/Notebook.ipynb'' = path_join (root_dir demo_cm) [''a/b/Notebook.ipynb'']"
  "''/proj/.nbexports/a/b/Notebook.py'' =
     nbexports_path demo_env @ [sep] @ fst (splitext ''a/b/Notebook.ipynb'') @ ''.py''"
  "relative_path ''demo.ipynb''"
  "''/proj/demo.ipynb'' = path_join (root_dir demo_cm) [''demo.ipynb'']"
  "''/proj/.nbexports/demo.py'' =
     nbexports_path demo_env @ [sep] @ fst (splitext ''demo.ipynb'') @ ''.py''"
  by code_simp+

lemma nested_names:
  "nbexports_path demo_env = ''/proj/.nbexports''"
  "fst (splitext ''a/b/Notebook.ipynb'') = ''a/b/Notebook''"
  by code_simp+

lemma py_extension:
  "[''output_extension'' \<mapsto> ''.py''] ''output_extension'' = Some ''.py''"
  "sep \<notin> set ''.py''"
  by simp_all

section \<open>The claims\<close>

subsection \<open>Saves of files and directories\<close>

text \<open>
  Claim C2. A save whose \<^verbatim>\<open>model['type']\<close> is not \<^verbatim>\<open>'notebook'\<close> returns at once and
  leaves the world as it was: the file system is the same, no call to the logger, the
  exporter class or an exporter instance is recorded, and the global keeps its value.
\<close>

theorem non_notebook_returns_unchanged:
  assumes "model ''type'' = Some t" and "t \<noteq> ''notebook''"
  shows "script_post_save env model os_path contents_manager w = (Inr (), w)"
  using assms by (simp add: script_post_save_def)

theorem non_notebook_returns_unchanged_witness:
  "file_model ''type'' = Some ''file'' \<and> ''file'' \<noteq> ''notebook'' \<and>
   script_post_save demo_env file_model ''/proj/notes.txt'' demo_cm demo_world
     = (Inr (), demo_world)"
  using non_notebook_returns_unchanged
    [of file_model "''file''" demo_env "''/proj/notes.txt''" demo_cm demo_world]
  by (simp add: file_model_def)

subsection \<open>Failures\<close>

text \<open>
  Claim C9. When the conversion raises on a notebook save, the hook raises the same
  exception and the file system is what it was before the save: the conversion is the
  first thing \<^verbatim>\<open>export_script\<close> does.
\<close>

theorem conversion_error_leaves_filesystem:
  assumes "model ''type'' = Some ''notebook''"
    and "from_filename env (disk w) (fst (ensure_script_exporter env contents_manager w)) os_path
           = Inl e"
  shows "fst (script_post_save env model os_path contents_manager w) = Inl e \<and>
         disk (snd (script_post_save env model os_path contents_manager w)) = disk w"
  using assms
  by (simp add: script_post_save_notebook export_script_conversion_raises)

theorem conversion_error_leaves_filesystem_witness:
  "notebook_model ''type'' = Some ''notebook'' \<and>
   from_filename demo_env (disk demo_world)
     (fst (ensure_script_exporter demo_env demo_cm demo_world)) ''/proj/bad.ipynb''
     = Inl (Raised ''NotJSONError'') \<and>
   fst (script_post_save demo_env notebook_model ''/proj/bad.ipynb'' demo_cm demo_world)
     = Inl (Raised ''NotJSONError'') \<and>
   disk (snd (script_post_save demo_env notebook_model ''/proj/bad.ipynb'' demo_cm demo_world))
     = disk demo_world"
  using conversion_error_leaves_filesystem [of notebook_model demo_env demo_world demo_cm
      "''/proj/bad.ipynb''" "Raised ''NotJSONError''"]
  by (simp add: notebook_model_def demo_env_def demo_from_filename_def)

text \<open>
  Claim C7. Whatever the conversion, the creation of the directories, the opening of the
  file or the write raises on a notebook save is what the hook raises, unchanged. In
  each case the calls recorded end with the call that raised: nothing is tried again
  and nothing is done after it.
\<close>

theorem errors_propagate_unmodified:
  assumes "model ''type'' = Some ''notebook''"
    and "x = fst (ensure_script_exporter env cm w)"
    and "w' = snd (ensure_script_exporter env cm w)"
    and "r = script_post_save env model os_path cm w"
  shows
    "(from_filename env (disk w) x os_path = Inl e \<longrightarrow>
        fst r = Inl e \<and> calls (snd r) = calls w' @ [From_filename x os_path]) \<and>
     (\<forall>script res.
        from_filename env (disk w) x os_path = Inr (script, res) \<and>
        makedirs (dirname (script_fullpath env os_path res cm)) True (disk w) = Inl e \<longrightarrow>
          fst r = Inl e \<and>
          calls (snd r) = calls w' @
            [From_filename x os_path,
             Makedirs (dirname (script_fullpath env os_path res cm)) True]) \<and>
     (\<forall>script res fs3.
        from_filename env (disk w) x os_path = Inr (script, res) \<and>
        makedirs (dirname (script_fullpath env os_path res cm)) True (disk w) = Inr fs3 \<and>
        open_w (script_fullpath env os_path res cm) fs3 = Inl e \<longrightarrow>
          fst r = Inl e \<and>
          calls (snd r) = calls w' @
            [From_filename x os_path,
             Makedirs (dirname (script_fullpath env os_path res cm)) True,
             Log_info (log cm) ''Saving script /%s'' [script_fullpath env os_path res cm],
             Open_w (script_fullpath env os_path res cm) (Some UTF8) (Some [LF])]) \<and>
     (\<forall>script res fs3 fs5.
        from_filename env (disk w) x os_path = Inr (script, res) \<and>
        makedirs (dirname (script_fullpath env os_path res cm)) True (disk w) = Inr fs3 \<and>
        open_w (script_fullpath env os_path res cm) fs3 = Inr fs5 \<and>
        write_text (host env) (Some UTF8) (Some [LF]) (script_fullpath env os_path res cm)
          script fs5 = Inl e \<longrightarrow>
          fst r = Inl e \<and>
          calls (snd r) = calls w' @
            [From_filename x os_path,
             Makedirs (dirname (script_fullpath env os_path res cm)) True,
             Log_info (log cm) ''Saving script /%s'' [script_fullpath env os_path res cm],
             Open_w (script_fullpath env os_path res cm) (Some UTF8) (Some [LF]),
             Write (script_fullpath env os_path res cm) script])"
proof -
  have r: "r = export_script env x model os_path cm w'"
    using assms by (simp add: script_post_save_notebook)
  have d: "disk w' = disk w"
    using assms by simp
  have a: "from_filename env (disk w) x os_path = Inl e \<Longrightarrow>
      fst r = Inl e \<and> calls (snd r) = calls w' @ [From_filename x os_path]"
    unfolding r using export_script_conversion_raises [of env w' x os_path e model cm]
    by (simp add: d)
  have b: "fst r = Inl e \<and>
      calls (snd r) = calls w' @
        [From_filename x os_path, Makedirs (dirname (script_fullpath env os_path res cm)) True]"
    if "from_filename env (disk w) x os_path = Inr (script, res)"
      and "makedirs (dirname (script_fullpath env os_path res cm)) True (disk w) = Inl e"
    for script res
    unfolding r using export_script_makedirs_raises [of env w' x os_path script res cm e model] that
    by (simp add: d)
  have c: "fst r = Inl e \<and>
      calls (snd r) = calls w' @
        [From_filename x os_path,
         Makedirs (dirname (script_fullpath env os_path res cm)) True,
         Log_info (log cm) ''Saving script /%s'' [script_fullpath env os_path res cm],
         Open_w (script_fullpath env os_path res cm) (Some UTF8) (Some [LF])]"
    if "from_filename env (disk w) x os_path = Inr (script, res)"
      and "makedirs (dirname (script_fullpath env os_path res cm)) True (disk w) = Inr fs3"
      and "open_w (script_fullpath env os_path res cm) fs3 = Inl e"
    for script res fs3
    unfolding r
    using export_script_open_raises [of env w' x os_path script res cm fs3 e model] that
    by (simp add: d)
  have e: "fst r = Inl e \<and>
      calls (snd r) = calls w' @
        [From_filename x os_path,
         Makedirs (dirname (script_fullpath env os_path res cm)) True,
         Log_info (log cm) ''Saving script /%s'' [script_fullpath env os_path res cm],
         Open_w (script_fullpath env os_path res cm) (Some UTF8) (Some [LF]),
         Write (script_fullpath env os_path res cm) script]"
    if "from_filename env (disk w) x os_path = Inr (script, res)"
      and "makedirs (dirname (script_fullpath env os_path res cm)) True (disk w) = Inr fs3"
      and "open_w (script_fullpath env os_path res cm) fs3 = Inr fs5"
      and "write_text (host env) (Some UTF8) (Some [LF]) (script_fullpath env os_path res cm)
             script fs5 = Inl e"
    for script res fs3 fs5
    unfolding r
    using export_script_write_raises [of env w' x os_path script res cm fs3 fs5 e model] that
    by (simp add: d)
  show ?thesis
    using a b c e by blast
qed


theorem errors_propagate_unmodified_witness:
  "from_filename demo_env (disk demo_world) demo_exporter ''/proj/bad.ipynb''
     = Inl (Raised ''NotJSONError'') \<and>
   fst (script_post_save demo_env notebook_model ''/proj/bad.ipynb'' demo_cm demo_world)
     = Inl (Raised ''NotJSONError'') \<and>
   makedirs ''/proj/.nbexports'' True (disk blocked_world)
     = Inl FileExistsError \<and>
   fst (script_post_save demo_env notebook_model ''/proj/demo.ipynb'' demo_cm blocked_world)
     = Inl FileExistsError \<and>
   open_w ''/proj/.nbexports/demo.py'' (disk occupied_world)
     = Inl IsADirectoryError \<and>
   fst (script_post_save demo_env notebook_model ''/proj/demo.ipynb'' demo_cm occupied_world)
     = Inl IsADirectoryError \<and>
   encode UTF8 [0xD800] = Inl (UnicodeEncodeError 0xD800) \<and>
   fst (script_post_save demo_env notebook_model ''/proj/odd.ipynb'' demo_cm demo_world)
     = Inl (UnicodeEncodeError 0xD800)"
proof -
  have a: "fst (script_post_save demo_env notebook_model ''/proj/bad.ipynb'' demo_cm demo_world)
      = Inl (Raised ''NotJSONError'')"
    using errors_propagate_unmodified
        [where model = notebook_model and env = demo_env and cm = demo_cm and w = demo_world
          and os_path = "''/proj/bad.ipynb''" and e = "Raised ''NotJSONError''",
         OF notebook_model_type refl refl refl]
    by (simp add: demo_from_filename_simps)
  have b: "fst (script_post_save demo_env notebook_model ''/proj/demo.ipynb'' demo_cm blocked_world)
      = Inl FileExistsError"
    using errors_propagate_unmodified
        [where model = notebook_model and env = demo_env and cm = demo_cm and w = blocked_world
          and os_path = "''/proj/demo.ipynb''" and e = FileExistsError,
         OF notebook_model_type refl refl refl]
    by (simp add: demo_from_filename_simps demo_fullpath demo_dirname blocked_makedirs)
  have c: "fst (script_post_save demo_env notebook_model ''/proj/demo.ipynb'' demo_cm occupied_world)
      = Inl IsADirectoryError"
    using errors_propagate_unmodified
        [where model = notebook_model and env = demo_env and cm = demo_cm and w = occupied_world
          and os_path = "''/proj/demo.ipynb''" and e = IsADirectoryError,
         OF notebook_model_type refl refl refl]
    by (simp add: demo_from_filename_simps demo_fullpath demo_dirname occupied_makedirs
        occupied_open)
  have d: "fst (script_post_save demo_env notebook_model ''/proj/odd.ipynb'' demo_cm demo_world)
      = Inl (UnicodeEncodeError 0xD800)"
    using errors_propagate_unmodified
        [where model = notebook_model and env = demo_env and cm = demo_cm and w = demo_world
          and os_path = "''/proj/odd.ipynb''" and e = "UnicodeEncodeError 0xD800",
         OF notebook_model_type refl refl refl]
    by (simp add: demo_from_filename_simps odd_fullpath demo_dirname demo_makedirs odd_open
        odd_write)
  show ?thesis
    using a b c d
    by (simp add: demo_from_filename_simps blocked_makedirs occupied_open odd_encode
        del: encode.simps)
qed

subsection \<open>The log\<close>

text \<open>
  Claim C8. A notebook save that returns has made these calls, in this order: the
  conversion, \<^verbatim>\<open>makedirs\<close>, one \<^verbatim>\<open>log.info\<close> on the logger of the contents manager, with
  the format \<^verbatim>\<open>Saving script /%s\<close> and the path of the export file as its one argument,
  then the opening of that file and the write. It is the only call to a logger of the
  save.
\<close>

theorem one_log_line_before_write:
  assumes "model ''type'' = Some ''notebook''"
    and "x = fst (ensure_script_exporter env cm w)"
    and "w' = snd (ensure_script_exporter env cm w)"
    and "r = script_post_save env model os_path cm w"
    and "from_filename env (disk w) x os_path = Inr (script, res)"
    and "fst r = Inr ()"
    and "fullpath = script_fullpath env os_path res cm"
  shows "calls (snd r) = calls w' @
           [From_filename x os_path,
            Makedirs (dirname fullpath) True,
            Log_info (log cm) ''Saving script /%s'' [fullpath],
            Open_w fullpath (Some UTF8) (Some [LF]),
            Write fullpath script] \<and>
         log_output (snd r) = log_output w @ [Log_info (log cm) ''Saving script /%s'' [fullpath]]"
proof -
  have r: "r = export_script env x model os_path cm w'"
    using assms by (simp add: script_post_save_notebook)
  have d: "disk w' = disk w"
    using assms by simp
  have conv: "from_filename env (disk w') x os_path = Inr (script, res)"
    using assms by (simp add: d)
  obtain fs3 fs5 fs6 where
    "makedirs (dirname fullpath) True (disk w') = Inr fs3"
    "open_w fullpath fs3 = Inr fs5"
    "write_text (host env) (Some UTF8) (Some [LF]) fullpath script fs5 = Inr fs6"
    using export_script_returnsD [of env x model os_path cm w' script res] assms(6,7) conv
    unfolding r by blast
  then have c: "calls (snd r) = calls w' @
           [From_filename x os_path,
            Makedirs (dirname fullpath) True,
            Log_info (log cm) ''Saving script /%s'' [fullpath],
            Open_w fullpath (Some UTF8) (Some [LF]),
            Write fullpath script]"
    unfolding r using export_script_returns [of env w' x os_path script res cm fs3 fs5 fs6 model] conv assms(7)
    by simp
  have "log_output w' = log_output w"
    using assms(3) by simp
  then have "log_output (snd r) = log_output w @ [Log_info (log cm) ''Saving script /%s'' [fullpath]]"
    using c by (simp add: log_output_def)
  with c show ?thesis by simp
qed

theorem one_log_line_before_write_witness:
  "from_filename demo_env (disk demo_world) demo_exporter ''/proj/demo.ipynb''
     = Inr (demo_script, [''output_extension'' \<mapsto> ''.py'']) \<and>
   fst (script_post_save demo_env notebook_model ''/proj/demo.ipynb'' demo_cm demo_world) = Inr () \<and>
   calls (snd (script_post_save demo_env notebook_model ''/proj/demo.ipynb'' demo_cm demo_world)) =
     [New_ScriptExporter demo_cm, From_filename demo_exporter ''/proj/demo.ipynb'',
      Makedirs ''/proj/.nbexports'' True,
      Log_info ''NotebookApp'' ''Saving script /%s'' [''/proj/.nbexports/demo.py''],
      Open_w ''/proj/.nbexports/demo.py'' (Some UTF8) (Some [LF]),
      Write ''/proj/.nbexports/demo.py'' demo_script] \<and>
   log_output (snd (script_post_save demo_env notebook_model ''/proj/demo.ipynb'' demo_cm demo_world)) =
     [Log_info ''NotebookApp'' ''Saving script /%s'' [''/proj/.nbexports/demo.py'']]"
proof -
  note T = one_log_line_before_write
    [where model = notebook_model and env = demo_env and cm = demo_cm and w = demo_world
      and os_path = "''/proj/demo.ipynb''" and script = demo_script
      and res = "[''output_extension'' \<mapsto> ''.py'']",
     OF notebook_model_type refl refl refl demo_conv_ensure(1) demo_save_ok(1) refl]
  have "log_output demo_world = []"
    by (simp add: log_output_def demo_world_def)
  with T show ?thesis
    by (simp add: demo_ensure_world demo_fullpath demo_dirname demo_log demo_from_filename_simps
        demo_save_ok)
qed

subsection \<open>The export path and the export file\<close>

text \<open>
  Claim C5. The extension that ends the export path is the value of the resources under
  \<^verbatim>\<open>'output_extension'\<close>, and \<^verbatim>\<open>.txt\<close> when the resources have no such key: the
  directory asked for is the directory of that path, and a save that returns has
  written the file of that path.
\<close>

theorem extension_from_resources_or_txt:
  assumes "model ''type'' = Some ''notebook''"
    and "x = fst (ensure_script_exporter env cm w)"
    and "r = script_post_save env model os_path cm w"
    and "from_filename env (disk w) x os_path = Inr (script, res)"
    and "ext = (case res ''output_extension'' of None \<Rightarrow> ''.txt'' | Some e \<Rightarrow> e)"
    and "target = path_join (dir_path env)
           [''.nbexports'', to_api_path (fst (splitext os_path) @ ext) (root_dir cm)]"
  shows "Makedirs (dirname target) True \<in> set (calls (snd r)) \<and>
         (fst r = Inr () \<longrightarrow>
            last (calls (snd r)) = Write target script \<and>
            files (disk (snd r)) (resolve target) \<noteq> None)"
proof -
  let ?w = "snd (ensure_script_exporter env cm w)"
  have r: "r = export_script env x model os_path cm ?w"
    using assms by (simp add: script_post_save_notebook)
  have t: "script_fullpath env os_path res cm = target"
    using assms(5,6) by (simp only: script_fullpath_unfold)
  have conv: "from_filename env (disk ?w) x os_path = Inr (script, res)"
    using assms by simp
  have m: "Makedirs (dirname target) True \<in> set (calls (snd r))"
    unfolding r using export_script_makedirs_called [OF conv, of cm model] by (simp only: t)
  have s: "last (calls (snd r)) = Write target script \<and>
      files (disk (snd r)) (resolve target) \<noteq> None" if ok: "fst r = Inr ()"
  proof -
    obtain fs3 fs5 fs6 where st:
      "makedirs (dirname target) True (disk ?w) = Inr fs3"
      "open_w target fs3 = Inr fs5"
      "write_text (host env) (Some UTF8) (Some [LF]) target script fs5 = Inr fs6"
      using export_script_returnsD [of env x model os_path cm ?w script res] ok conv
      unfolding r t by blast
    have "r = (Inr (), ?w\<lparr>disk := fs6,
                     calls := calls ?w @
                       [From_filename x os_path,
                        Makedirs (dirname target) True,
                        Log_info (log cm) ''Saving script /%s'' [target],
                        Open_w target (Some UTF8) (Some [LF]),
                        Write target script]\<rparr>)"
      unfolding r
      using export_script_returns [of env ?w x os_path script res cm fs3 fs5 fs6 model] conv st
      by (simp only: t)
    then show ?thesis
      using write_text_files [OF st(3)] by simp
  qed
  show ?thesis using m s by blast
qed

theorem extension_from_resources_or_txt_witness:
  "from_filename demo_env (disk demo_world) demo_exporter ''/proj/demo.ipynb''
     = Inr (demo_script, [''output_extension'' \<mapsto> ''.py'']) \<and>
   Makedirs ''/proj/.nbexports'' True
     \<in> set (calls (snd (script_post_save demo_env notebook_model ''/proj/demo.ipynb'' demo_cm demo_world))) \<and>
   last (calls (snd (script_post_save demo_env notebook_model ''/proj/demo.ipynb'' demo_cm demo_world)))
     = Write ''/proj/.nbexports/demo.py'' demo_script \<and>
   from_filename demo_env (disk demo_world) demo_exporter ''/proj/plain.ipynb''
     = Inr (demo_script, Map.empty) \<and>
   Makedirs ''/proj/.nbexports'' True
     \<in> set (calls (snd (script_post_save demo_env notebook_model ''/proj/plain.ipynb'' demo_cm demo_world))) \<and>
   last (calls (snd (script_post_save demo_env notebook_model ''/proj/plain.ipynb'' demo_cm demo_world)))
     = Write ''/proj/.nbexports/plain.txt'' demo_script \<and>
   files (disk (snd (script_post_save demo_env notebook_model ''/proj/plain.ipynb'' demo_cm demo_world)))
     (resolve ''/proj/.nbexports/plain.txt'') \<noteq> None"
proof -
  have py: "''.py'' = (case [''output_extension'' \<mapsto> ''.py''] ''output_extension'' of
      None \<Rightarrow> ''.txt'' | Some e \<Rightarrow> e)"
    by simp
  have tx: "''.txt'' = (case (Map.empty :: resources) ''output_extension'' of
      None \<Rightarrow> ''.txt'' | Some e \<Rightarrow> e)"
    by simp
  note A = extension_from_resources_or_txt
    [where model = notebook_model and env = demo_env and cm = demo_cm and w = demo_world
      and os_path = "''/proj/demo.ipynb''" and script = demo_script
      and res = "[''output_extension'' \<mapsto> ''.py'']" and ext = "''.py''"
      and target = "''/proj/.nbexports/demo.py''",
     OF notebook_model_type refl refl demo_conv_ensure(1) py demo_targets(1)]
  note B = extension_from_resources_or_txt
    [where model = notebook_model and env = demo_env and cm = demo_cm and w = demo_world
      and os_path = "''/proj/plain.ipynb''" and script = demo_script
      and res = "Map.empty" and ext = "''.txt''"
      and target = "''/proj/.nbexports/plain.txt''",
     OF notebook_model_type refl refl demo_conv_ensure(2) tx demo_targets(2)]
  show ?thesis
    using A B by (simp add: demo_save_ok demo_dirname demo_from_filename_simps)
qed

text \<open>
  Claim C10. A notebook save that returns has opened the export file with the encoding
  UTF-8 and the newline \<^verbatim>\<open>'\n'\<close>: the file holds the UTF-8 encoding of the script as
  rendered, with no newline translated, and the save does the same on every host
  platform, whatever its preferred encoding and its line separator.
\<close>

theorem export_written_as_utf8_with_lf:
  assumes "model ''type'' = Some ''notebook''"
    and "x = fst (ensure_script_exporter env cm w)"
    and "r = script_post_save env model os_path cm w"
    and "from_filename env (disk w) x os_path = Inr (script, res)"
    and "fst r = Inr ()"
    and "fullpath = script_fullpath env os_path res cm"
  shows "(\<exists>bs. encode UTF8 script = Inr bs \<and> files (disk (snd r)) (resolve fullpath) = Some bs) \<and>
         Open_w fullpath (Some UTF8) (Some [LF]) \<in> set (calls (snd r)) \<and>
         (\<forall>pf. script_post_save (env\<lparr>host := pf\<rparr>) model os_path cm w = r)"
proof -
  let ?w = "snd (ensure_script_exporter env cm w)"
  have r: "r = export_script env x model os_path cm ?w"
    using assms by (simp add: script_post_save_notebook)
  have conv: "from_filename env (disk ?w) x os_path = Inr (script, res)"
    using assms by simp
  obtain fs3 fs5 fs6 where st:
    "makedirs (dirname fullpath) True (disk ?w) = Inr fs3"
    "open_w fullpath fs3 = Inr fs5"
    "write_text (host env) (Some UTF8) (Some [LF]) fullpath script fs5 = Inr fs6"
    using export_script_returnsD [of env x model os_path cm ?w script res] assms(5,6) conv
    unfolding r by blast
  have rr: "r = (Inr (), ?w\<lparr>disk := fs6,
                   calls := calls ?w @
                     [From_filename x os_path,
                      Makedirs (dirname fullpath) True,
                      Log_info (log cm) ''Saving script /%s'' [fullpath],
                      Open_w fullpath (Some UTF8) (Some [LF]),
                      Write fullpath script]\<rparr>)"
    unfolding r
    using export_script_returns [of env ?w x os_path script res cm fs3 fs5 fs6 model] conv st assms(6)
    by simp
  obtain bs where bs: "encode UTF8 script = Inr bs"
    and fs6: "fs6 = fs5\<lparr>files := (files fs5)(resolve fullpath \<mapsto> bs)\<rparr>"
    using st(3) by (auto simp add: write_text_utf8 split: sum.splits)
  have "files (disk (snd r)) (resolve fullpath) = Some bs"
    by (simp add: rr fs6)
  moreover have "Open_w fullpath (Some UTF8) (Some [LF]) \<in> set (calls (snd r))"
    by (simp add: rr)
  moreover have "\<forall>pf. script_post_save (env\<lparr>host := pf\<rparr>) model os_path cm w = r"
    using assms(3) by (simp add: script_post_save_host)
  ultimately show ?thesis using bs by blast
qed

theorem export_written_as_utf8_with_lf_witness:
  "from_filename demo_env (disk demo_world) demo_exporter ''/proj/demo.ipynb''
     = Inr (demo_script, [''output_extension'' \<mapsto> ''.py'']) \<and>
   fst (script_post_save demo_env notebook_model ''/proj/demo.ipynb'' demo_cm demo_world) = Inr () \<and>
   encode UTF8 demo_script = Inr [112, 114, 105, 110, 116, 40, 49, 41, 10] \<and>
   files (disk (snd (script_post_save demo_env notebook_model ''/proj/demo.ipynb'' demo_cm demo_world)))
     (resolve ''/proj/.nbexports/demo.py'') = Some [112, 114, 105, 110, 116, 40, 49, 41, 10] \<and>
   script_post_save (demo_env\<lparr>host := \<lparr>preferred_encoding = ASCII, linesep = [13]\<rparr>\<rparr>)
       notebook_model ''/proj/demo.ipynb'' demo_cm demo_world
     = script_post_save demo_env notebook_model ''/proj/demo.ipynb'' demo_cm demo_world"
proof -
  note T = export_written_as_utf8_with_lf
    [where model = notebook_model and env = demo_env and cm = demo_cm and w = demo_world
      and os_path = "''/proj/demo.ipynb''" and script = demo_script
      and res = "[''output_extension'' \<mapsto> ''.py'']",
     OF notebook_model_type refl refl demo_conv_ensure(1) demo_save_ok(1) refl]
  from T have "script_post_save (demo_env\<lparr>host := \<lparr>preferred_encoding = ASCII, linesep = [13]\<rparr>\<rparr>)
       notebook_model ''/proj/demo.ipynb'' demo_cm demo_world
     = script_post_save demo_env notebook_model ''/proj/demo.ipynb'' demo_cm demo_world"
    by blast
  moreover from T have "files (disk (snd (script_post_save demo_env notebook_model ''/proj/demo.ipynb''
      demo_cm demo_world))) (resolve ''/proj/.nbexports/demo.py'')
      = Some [112, 114, 105, 110, 116, 40, 49, 41, 10]"
    by (auto simp add: demo_fullpath demo_encode simp del: encode.simps)
  ultimately show ?thesis
    by (simp add: demo_save_ok demo_encode demo_from_filename_simps del: encode.simps)
qed

subsection \<open>The exporter\<close>

text \<open>
  Claim C4. In a process that starts with the global \<^verbatim>\<open>_script_exporter\<close> unset, after any
  sequence of saves the exporter class has been called once if a notebook was saved and
  not at all otherwise, so at most once; an exporter that the global holds after some of
  the saves is the one it holds after all of them; and every conversion of the process
  went to the exporter the global holds.
\<close>

theorem exporter_constructed_once_and_kept:
  assumes "script_exporter w = None" and "calls w = []"
  shows "constructions (saves env evs w) = (if list_ex is_notebook_save evs then 1 else 0) \<and>
         (\<forall>n x. script_exporter (saves env (take n evs) w) = Some x \<longrightarrow>
                  script_exporter (saves env evs w) = Some x) \<and>
         (\<forall>x p. From_filename x p \<in> set (calls (saves env evs w)) \<longrightarrow>
                  script_exporter (saves env evs w) = Some x)"
proof -
  have c: "cache_consistent (saves env evs w)"
    using assms by (simp add: cache_consistent_saves cache_consistent_fresh)
  have n: "script_exporter (saves env evs w) = None \<longleftrightarrow> \<not> list_ex is_notebook_save evs"
    using assms(1) by (rule script_exporter_saves_None)
  have 1: "constructions (saves env evs w) = (if list_ex is_notebook_save evs then 1 else 0)"
    using c n by (auto simp add: cache_consistent_def split: option.splits)
  have 2: "script_exporter (saves env evs w) = Some x"
    if "script_exporter (saves env (take n evs) w) = Some x" for n x
  proof -
    have "saves env evs w = saves env (drop n evs) (saves env (take n evs) w)"
      using saves_append [of env "take n evs" "drop n evs" w] by simp
    then show ?thesis
      using script_exporter_kept [OF that] by simp
  qed
  have 3: "script_exporter (saves env evs w) = Some x"
    if "From_filename x p \<in> set (calls (saves env evs w))" for x p
    using c that by (auto simp add: cache_consistent_def split: option.splits)
  show ?thesis
    using 1 2 3 by blast
qed

theorem exporter_constructed_once_and_kept_witness:
  "script_exporter demo_world = None \<and> calls demo_world = [] \<and>
   constructions (saves demo_env [save_of file_model ''/proj/notes.txt''] demo_world) = 0 \<and>
   constructions
     (saves demo_env
        [save_of file_model ''/proj/notes.txt'', save_of notebook_model ''/proj/demo.ipynb'',
         save_of notebook_model ''/proj/bad.ipynb'', save_of notebook_model ''/proj/demo.ipynb'']
        demo_world) = 1 \<and>
   script_exporter
     (saves demo_env
        [save_of file_model ''/proj/notes.txt'', save_of notebook_model ''/proj/demo.ipynb'',
         save_of notebook_model ''/proj/bad.ipynb'', save_of notebook_model ''/proj/demo.ipynb'']
        demo_world) = Some demo_exporter"
proof -
  have f: "script_exporter demo_world = None" "calls demo_world = []"
    by (simp_all add: demo_world_def)
  let ?evs = "[save_of file_model ''/proj/notes.txt'', save_of notebook_model ''/proj/demo.ipynb'',
         save_of notebook_model ''/proj/bad.ipynb'', save_of notebook_model ''/proj/demo.ipynb'']"
  note A = exporter_constructed_once_and_kept [OF f, of demo_env "[save_of file_model ''/proj/notes.txt'']"]
  note B = exporter_constructed_once_and_kept [OF f, of demo_env ?evs]
  have a: "constructions (saves demo_env [save_of file_model ''/proj/notes.txt''] demo_world) = 0"
    using A demo_events_notebook(2) by (simp del: saves.simps list_ex_Nil_iff list_ex_Cons_iff)
  have b: "constructions (saves demo_env ?evs demo_world) = 1"
    using B demo_events_notebook(1) by (simp del: saves.simps list_ex_Nil_iff list_ex_Cons_iff)
  have "take 2 ?evs = [save_of file_model ''/proj/notes.txt'', save_of notebook_model ''/proj/demo.ipynb'']"
    by simp
  then have c: "script_exporter (saves demo_env ?evs demo_world) = Some demo_exporter"
    using B [THEN conjunct2, THEN conjunct1, rule_format, of 2 demo_exporter] demo_two_saves
    by (simp del: saves.simps)
  show ?thesis
    using f a b c by simp
qed

subsection \<open>Saving again\<close>

text \<open>
  Claim C3. A notebook save that returns leaves the files as they were but for the export
  path, which holds the UTF-8 encoding of the rendered script, with no newline
  translated, whatever was there before. A second save of the notebook, when the
  conversion renders the same script and resources, returns and leaves the file system
  exactly as the first save left it.
\<close>

theorem resave_overwrites_with_same_bytes:
  assumes "model ''type'' = Some ''notebook''"
    and "x = fst (ensure_script_exporter env cm w)"
    and "r1 = script_post_save env model os_path cm w"
    and "fst r1 = Inr ()"
    and "from_filename env (disk w) x os_path = Inr (script, res)"
    and "from_filename env (disk (snd r1)) x os_path = Inr (script, res)"
    and "fullpath = script_fullpath env os_path res cm"
    and "r2 = script_post_save env model os_path cm (snd r1)"
  shows "(\<exists>bs. encode UTF8 script = Inr bs \<and>
              files (disk (snd r1)) = (files (disk w))(resolve fullpath \<mapsto> bs)) \<and>
         fst r2 = Inr () \<and> disk (snd r2) = disk (snd r1)"
proof -
  let ?w = "snd (ensure_script_exporter env cm w)"
  have r1: "r1 = export_script env x model os_path cm ?w"
    using assms by (simp add: script_post_save_notebook)
  then have ok: "export_script env x model os_path cm ?w = (Inr (), snd r1)"
    using assms(4) by (metis prod.collapse)
  have "script_exporter (snd r1) = Some x"
    using assms(2) by (simp add: r1)
  then have "ensure_script_exporter env cm (snd r1) = (x, snd r1)"
    by (rule ensure_script_exporter_Some)
  then have r2: "r2 = export_script env x model os_path cm (snd r1)"
    using assms(1,8) by (simp add: script_post_save_notebook)
  have conv: "from_filename env (disk ?w) x os_path = Inr (script, res)"
    using assms(5) by simp
  show ?thesis
    using export_script_again [OF conv ok assms(6)] assms(7) by (auto simp add: r2)
qed

theorem resave_overwrites_with_same_bytes_witness:
  "fst (script_post_save demo_env notebook_model ''/proj/demo.ipynb'' demo_cm demo_world) = Inr () \<and>
   files (disk (snd (script_post_save demo_env notebook_model ''/proj/demo.ipynb'' demo_cm demo_world)))
     = [[''proj'', ''.nbexports'', ''demo.py''] \<mapsto> [112, 114, 105, 110, 116, 40, 49, 41, 10]] \<and>
   fst (script_post_save demo_env notebook_model ''/proj/demo.ipynb'' demo_cm
     (snd (script_post_save demo_env notebook_model ''/proj/demo.ipynb'' demo_cm demo_world)))
     = Inr () \<and>
   disk (snd (script_post_save demo_env notebook_model ''/proj/demo.ipynb'' demo_cm
     (snd (script_post_save demo_env notebook_model ''/proj/demo.ipynb'' demo_cm demo_world))))
     = disk (snd (script_post_save demo_env notebook_model ''/proj/demo.ipynb'' demo_cm demo_world))"
proof -
  note T = resave_overwrites_with_same_bytes
    [where model = notebook_model and env = demo_env and cm = demo_cm and w = demo_world
      and os_path = "''/proj/demo.ipynb''" and script = demo_script
      and res = "[''output_extension'' \<mapsto> ''.py'']",
     OF notebook_model_type refl refl demo_save_ok(1) demo_conv_ensure(1) demo_resave_conv
       refl refl]
  have "files (disk (snd (script_post_save demo_env notebook_model ''/proj/demo.ipynb'' demo_cm
      demo_world)))
     = [[''proj'', ''.nbexports'', ''demo.py''] \<mapsto> [112, 114, 105, 110, 116, 40, 49, 41, 10]]"
    by (simp add: demo_save)
  with T show ?thesis
    by (simp add: demo_save_ok)
qed

subsection \<open>The directory of the export file\<close>

text \<open>
  Claim C6. On a notebook save, \<^verbatim>\<open>makedirs\<close> is called for the directory of the export
  path. It raises nothing and changes nothing when that directory and the directories
  above it exist; when it returns, the file system is the one before with every
  directory on the way added. A save that returns has called it before it opened the
  file, the directory is the one that holds the export file, and it exists with all
  the directories above it.
\<close>

theorem export_directory_made_before_write:
  assumes "model ''type'' = Some ''notebook''"
    and "x = fst (ensure_script_exporter env cm w)"
    and "w' = snd (ensure_script_exporter env cm w)"
    and "r = script_post_save env model os_path cm w"
    and "from_filename env (disk w) x os_path = Inr (script, res)"
    and "fullpath = script_fullpath env os_path res cm"
    and "d = resolve (dirname fullpath)"
  shows
    "((\<forall>q \<in> set (prefixes_from [] d). isdir (disk w) q) \<longrightarrow>
        makedirs (dirname fullpath) True (disk w) = Inr (disk w)) \<and>
     (\<forall>fs3. makedirs (dirname fullpath) True (disk w) = Inr fs3 \<longrightarrow>
        fs3 = (disk w)\<lparr>dirs := dirs (disk w) \<union> set (prefixes_from [] d)\<rparr>) \<and>
     (fst r = Inr () \<longrightarrow>
        d = butlast (resolve fullpath) \<and>
        (\<forall>q \<in> set (prefixes_from [] d). isdir (disk (snd r)) q) \<and>
        calls (snd r) = calls w' @
          [From_filename x os_path,
           Makedirs (dirname fullpath) True,
           Log_info (log cm) ''Saving script /%s'' [fullpath],
           Open_w fullpath (Some UTF8) (Some [LF]),
           Write fullpath script])"
proof -
  have ne: "dirname fullpath \<noteq> []"
    unfolding assms(6) by (rule dirname_script_fullpath_not_Nil)
  have 1: "makedirs (dirname fullpath) True (disk w) = Inr (disk w)"
    if "\<forall>q \<in> set (prefixes_from [] d). isdir (disk w) q"
    using that ne unfolding assms(7) by (simp add: makedirs_existing)
  have 2: "fs3 = (disk w)\<lparr>dirs := dirs (disk w) \<union> set (prefixes_from [] d)\<rparr>"
    if "makedirs (dirname fullpath) True (disk w) = Inr fs3" for fs3
    using makedirs_Inr [OF that] unfolding assms(7) by simp
  have 3: "d = butlast (resolve fullpath) \<and>
        (\<forall>q \<in> set (prefixes_from [] d). isdir (disk (snd r)) q) \<and>
        calls (snd r) = calls w' @
          [From_filename x os_path,
           Makedirs (dirname fullpath) True,
           Log_info (log cm) ''Saving script /%s'' [fullpath],
           Open_w fullpath (Some UTF8) (Some [LF]),
           Write fullpath script]"
    if ok: "fst r = Inr ()"
  proof -
    have r: "r = export_script env x model os_path cm w'"
      using assms by (simp add: script_post_save_notebook)
    have conv: "from_filename env (disk w') x os_path = Inr (script, res)"
      using assms by simp
    obtain fs3 fs5 fs6 where st:
      "makedirs (dirname fullpath) True (disk w') = Inr fs3"
      "open_w fullpath fs3 = Inr fs5"
      "write_text (host env) (Some UTF8) (Some [LF]) fullpath script fs5 = Inr fs6"
      using export_script_returnsD [of env x model os_path cm w' script res] ok conv
      unfolding r assms(6) by blast
    have rr: "r = (Inr (), w'\<lparr>disk := fs6,
                   calls := calls w' @
                     [From_filename x os_path,
                      Makedirs (dirname fullpath) True,
                      Log_info (log cm) ''Saving script /%s'' [fullpath],
                      Open_w fullpath (Some UTF8) (Some [LF]),
                      Write fullpath script]\<rparr>)"
      unfolding r
      using export_script_returns [of env w' x os_path script res cm fs3 fs5 fs6 model] conv st
      by (simp add: assms(6))
    have dw: "disk w' = disk w"
      using assms(3) by simp
    have fs3: "fs3 = (disk w)\<lparr>dirs := dirs (disk w) \<union> set (prefixes_from [] d)\<rparr>"
      using 2 st(1) by (simp add: dw)
    have o: "fullpath \<noteq> []" "\<not> endswith fullpath [sep]"
      "fs5 = fs3\<lparr>files := (files fs3)(resolve fullpath \<mapsto> [])\<rparr>"
      using st(2) by (simp_all add: open_w_Inr_iff)
    obtain bs where fs6: "fs6 = fs5\<lparr>files := (files fs5)(resolve fullpath \<mapsto> bs)\<rparr>"
      using write_text_utf8_Inr [OF st(3)] by blast
    have "d = butlast (resolve fullpath)"
      unfolding assms(7) using o(1,2) by (simp add: resolve_dirname endswith_sep)
    moreover have "\<forall>q \<in> set (prefixes_from [] d). isdir (disk (snd r)) q"
      by (simp add: rr fs6 o(3) fs3 isdir_def)
    ultimately show ?thesis
      by (simp add: rr)
  qed
  show ?thesis
    using 1 2 3 by blast
qed

theorem export_directory_made_before_write_witness:
  "prefixes_from [] [''proj'', ''.nbexports''] = [[''proj''], [''proj'', ''.nbexports'']] \<and>
   isdir (disk occupied_world) [''proj''] \<and>
   isdir (disk occupied_world) [''proj'', ''.nbexports''] \<and>
   makedirs ''/proj/.nbexports'' True (disk occupied_world) = Inr (disk occupied_world) \<and>
   makedirs ''/proj/.nbexports/a/b'' True (disk demo_world)
     = Inr ((disk demo_world)\<lparr>dirs := dirs (disk demo_world) \<union>
         {[''proj''], [''proj'', ''.nbexports''], [''proj'', ''.nbexports'', ''a''],
          [''proj'', ''.nbexports'', ''a'', ''b'']}\<rparr>) \<and>
   fst (script_post_save demo_env notebook_model ''/proj/a/b/Notebook.ipynb'' demo_cm demo_world)
     = Inr () \<and>
   isdir (disk (snd (script_post_save demo_env notebook_model ''/proj/a/b/Notebook.ipynb'' demo_cm
       demo_world))) [''proj'', ''.nbexports'', ''a'', ''b''] \<and>
   \<not> isdir (disk demo_world) [''proj'', ''.nbexports'', ''a'', ''b'']"
proof -
  note A = export_directory_made_before_write
    [where model = notebook_model and env = demo_env and cm = demo_cm and w = occupied_world
      and os_path = "''/proj/demo.ipynb''" and script = demo_script
      and res = "[''output_extension'' \<mapsto> ''.py'']",
     OF notebook_model_type refl refl refl nested_conv_ensure(2) refl refl]
  note B = export_directory_made_before_write
    [where model = notebook_model and env = demo_env and cm = demo_cm and w = demo_world
      and os_path = "''/proj/a/b/Notebook.ipynb''" and script = demo_script
      and res = "[''output_extension'' \<mapsto> ''.py'']",
     OF notebook_model_type refl refl refl nested_conv_ensure(1) refl refl]
  have e: "\<forall>q \<in> set (prefixes_from [] [''proj'', ''.nbexports'']). isdir (disk occupied_world) q"
    by (simp add: isdir_def occupied_world_def)
  have a: "makedirs ''/proj/.nbexports'' True (disk occupied_world) = Inr (disk occupied_world)"
    using A [THEN conjunct1] e by (simp add: demo_fullpath demo_dirname demo_resolve)
  have ok: "fst (script_post_save demo_env notebook_model ''/proj/a/b/Notebook.ipynb'' demo_cm
      demo_world) = Inr ()"
    by (simp add: nested_save)
  have b: "isdir (disk (snd (script_post_save demo_env notebook_model ''/proj/a/b/Notebook.ipynb''
      demo_cm demo_world))) [''proj'', ''.nbexports'', ''a'', ''b'']"
    using B [THEN conjunct2, THEN conjunct2] ok
    by (simp add: nested_fullpath demo_dirname demo_resolve)
  have c: "makedirs ''/proj/.nbexports/a/b'' True (disk demo_world)
     = Inr ((disk demo_world)\<lparr>dirs := dirs (disk demo_world) \<union>
         {[''proj''], [''proj'', ''.nbexports''], [''proj'', ''.nbexports'', ''a''],
          [''proj'', ''.nbexports'', ''a'', ''b'']}\<rparr>)"
    using nested_stage_facts(1) by (simp add: demo_world_def insert_commute)
  have n: "\<not> isdir (disk demo_world) [''proj'', ''.nbexports'', ''a'', ''b'']"
    by (simp add: isdir_def demo_world_def)
  have p: "prefixes_from [] [''proj'', ''.nbexports''] = [[''proj''], [''proj'', ''.nbexports'']]"
    by simp
  show ?thesis
    using e a b c ok n unfolding p by simp
qed

subsection \<open>Where the export file lies\<close>

text \<open>
  Claim C1. For a notebook at the relative path \<open>p\<close> under the root of the contents
  manager, when the conversion names the extension \<open>e\<close>, the export path is the
  directory \<^verbatim>\<open>.nbexports\<close> beside the configuration file, a separator, \<open>p\<close> without its
  extension, and \<open>e\<close>. That is the path whose directory is made and, in a save that
  returns, the path of the file that is written, with the encoded script in it. The
  relative path is in normal form and the extension has no separator in it.
\<close>

theorem export_path_mirrors_relative_path:
  assumes "model ''type'' = Some ''notebook''"
    and "x = fst (ensure_script_exporter env cm w)"
    and "r = script_post_save env model os_path cm w"
    and "relative_path p"
    and "os_path = path_join (root_dir cm) [p]"
    and "from_filename env (disk w) x os_path = Inr (script, res)"
    and "res ''output_extension'' = Some e"
    and "sep \<notin> set e"
    and "target = nbexports_path env @ [sep] @ fst (splitext p) @ e"
  shows "script_fullpath env os_path res cm = target \<and>
         Makedirs (dirname target) True \<in> set (calls (snd r)) \<and>
         (fst r = Inr () \<longrightarrow>
            last (calls (snd r)) = Write target script \<and>
            (\<exists>bs. encode UTF8 script = Inr bs \<and>
                  files (disk (snd r)) (resolve target) = Some bs))"
proof -
  let ?w = "snd (ensure_script_exporter env cm w)"
  have t: "script_fullpath env os_path res cm = target"
    using script_repopath_relative [where res = res, OF assms(4,8,7,5)]
    by (simp add: script_fullpath_nbexports assms(9))
  have r: "r = export_script env x model os_path cm ?w"
    using assms by (simp add: script_post_save_notebook)
  have conv: "from_filename env (disk ?w) x os_path = Inr (script, res)"
    using assms by simp
  have m: "Makedirs (dirname target) True \<in> set (calls (snd r))"
    unfolding r using export_script_makedirs_called [OF conv, of cm model] by (simp only: t)
  have s: "last (calls (snd r)) = Write target script \<and>
      (\<exists>bs. encode UTF8 script = Inr bs \<and> files (disk (snd r)) (resolve target) = Some bs)"
    if ok: "fst r = Inr ()"
  proof -
    obtain fs3 fs5 fs6 where st:
      "makedirs (dirname target) True (disk ?w) = Inr fs3"
      "open_w target fs3 = Inr fs5"
      "write_text (host env) (Some UTF8) (Some [LF]) target script fs5 = Inr fs6"
      using export_script_returnsD [of env x model os_path cm ?w script res] ok conv
      unfolding r t by blast
    have rr: "r = (Inr (), ?w\<lparr>disk := fs6,
                     calls := calls ?w @
                       [From_filename x os_path,
                        Makedirs (dirname target) True,
                        Log_info (log cm) ''Saving script /%s'' [target],
                        Open_w target (Some UTF8) (Some [LF]),
                        Write target script]\<rparr>)"
      unfolding r
      using export_script_returns [of env ?w x os_path script res cm fs3 fs5 fs6 model] conv st
      by (simp only: t)
    obtain bs where bs: "encode UTF8 script = Inr bs"
      and fs6: "fs6 = fs5\<lparr>files := (files fs5)(resolve target \<mapsto> bs)\<rparr>"
      using write_text_utf8_Inr [OF st(3)] by blast
    show ?thesis
      using bs by (simp add: rr fs6)
  qed
  show ?thesis
    using t m s by blast
qed

theorem export_path_mirrors_relative_path_witness:
  "relative_path ''a/b/Notebook.ipynb'' \<and>
   path_join (root_dir demo_cm) [''a/b/Notebook.ipynb''] = ''/proj/a/b/Notebook.ipynb'' \<and>
   nbexports_path demo_env = ''/proj/.nbexports'' \<and>
   fst (splitext ''a/b/Notebook.ipynb'') = ''a/b/Notebook'' \<and>
   script_fullpath demo_env ''/proj/a/b/Notebook.ipynb'' [''output_extension'' \<mapsto> ''.py''] demo_cm
     = ''/proj/.nbexports/a/b/Notebook.py'' \<and>
   last (calls (snd (script_post_save demo_env notebook_model ''/proj/a/b/Notebook.ipynb'' demo_cm
       demo_world)))
     = Write ''/proj/.nbexports/a/b/Notebook.py'' demo_script \<and>
   last (calls (snd (script_post_save demo_env notebook_model ''/proj/demo.ipynb'' demo_cm
       demo_world)))
     = Write ''/proj/.nbexports/demo.py'' demo_script \<and>
   files (disk (snd (script_post_save demo_env notebook_model ''/proj/demo.ipynb'' demo_cm
       demo_world))) (resolve ''/proj/.nbexports/demo.py'')
     = Some [112, 114, 105, 110, 116, 40, 49, 41, 10]"
proof -
  note A = export_path_mirrors_relative_path
    [where model = notebook_model and env = demo_env and cm = demo_cm and w = demo_world
      and os_path = "''/proj/a/b/Notebook.ipynb''" and p = "''a/b/Notebook.ipynb''"
      and script = demo_script and res = "[''output_extension'' \<mapsto> ''.py'']"
      and e = "''.py''" and target = "''/proj/.nbexports/a/b/Notebook.py''",
     OF notebook_model_type refl refl nested_path_facts(1) nested_path_facts(2)
       nested_conv_ensure(1) py_extension nested_path_facts(3)]
  note B = export_path_mirrors_relative_path
    [where model = notebook_model and env = demo_env and cm = demo_cm and w = demo_world
      and os_path = "''/proj/demo.ipynb''" and p = "''demo.ipynb''"
      and script = demo_script and res = "[''output_extension'' \<mapsto> ''.py'']"
      and e = "''.py''" and target = "''/proj/.nbexports/demo.py''",
     OF notebook_model_type refl refl nested_path_facts(4) nested_path_facts(5)
       demo_conv_ensure(1) py_extension nested_path_facts(6)]
  have ok: "fst (script_post_save demo_env notebook_model ''/proj/a/b/Notebook.ipynb'' demo_cm
      demo_world) = Inr ()"
    by (simp add: nested_save)
  have a: "script_fullpath demo_env ''/proj/a/b/Notebook.ipynb'' [''output_extension'' \<mapsto> ''.py'']
      demo_cm = ''/proj/.nbexports/a/b/Notebook.py''"
    and b: "last (calls (snd (script_post_save demo_env notebook_model ''/proj/a/b/Notebook.ipynb''
      demo_cm demo_world))) = Write ''/proj/.nbexports/a/b/Notebook.py'' demo_script"
    using A ok by blast+
  have c: "last (calls (snd (script_post_save demo_env notebook_model ''/proj/demo.ipynb'' demo_cm
       demo_world))) = Write ''/proj/.nbexports/demo.py'' demo_script"
    using B demo_save_ok(1) by blast
  have d: "files (disk (snd (script_post_save demo_env notebook_model ''/proj/demo.ipynb'' demo_cm
       demo_world))) (resolve ''/proj/.nbexports/demo.py'')
     = Some [112, 114, 105, 110, 116, 40, 49, 41, 10]"
    using B demo_save_ok(1) by (auto simp add: demo_encode simp del: encode.simps)
  show ?thesis
    using a b c d nested_path_facts(1) nested_path_facts(2) [symmetric] nested_names
    by simp
qed

end
